theory Spec2Isabelle
  imports Complex_Main
begin

section \<open>JavaScript values used by the application\<close>

text \<open>
  Strings are lists of 8-bit code units (\<open>string\<close>). A value thrown by a vendor call,
  a platform call or the language itself is a \<open>js_error\<close>; a call that can throw returns
  \<open>js_error + 'a\<close> with \<open>Inl\<close> for the thrown value.
\<close>

datatype js_error =
    Error string        \<comment> \<open>\<open>new Error(message)\<close>, also the vendor's API errors\<close>
  | TypeError string    \<comment> \<open>raised by the language on a property read of \<open>undefined\<close>\<close>
  | Thrown              \<comment> \<open>a thrown value that has no \<open>message\<close> property\<close>

fun message :: "js_error \<Rightarrow> string option" where
  "message (Error m) = Some m"
| "message (TypeError m) = Some m"
| "message Thrown = None"

text \<open>
  \<open>String.prototype.trim\<close> removes the white space and line terminators at both ends.
  Of those, the code units that fit a \<open>char\<close> are TAB, LF, VT, FF, CR, SP and NBSP.
\<close>

definition isWhiteSpace :: "char \<Rightarrow> bool" where
  "isWhiteSpace c = (c = CHR 0x09 \<or> c = CHR 0x0A \<or> c = CHR 0x0B \<or> c = CHR 0x0C
     \<or> c = CHR 0x0D \<or> c = CHR 0x20 \<or> c = CHR 0xA0)"

definition trim :: "string \<Rightarrow> string" where
  "trim s = rev (dropWhile isWhiteSpace (rev (dropWhile isWhiteSpace s)))"

text \<open>\<open>hay.includes(needle)\<close>: the needle occurs at some position of the string.\<close>

fun str_includes :: "string \<Rightarrow> string \<Rightarrow> bool" where
  "str_includes [] needle = (needle = [])"
| "str_includes (c # cs) needle =
     (take (length needle) (c # cs) = needle \<or> str_includes cs needle)"

text \<open>String conversion of a \<open>string | undefined\<close> operand of \<open>+\<close> or of a template.\<close>

fun js_string :: "string option \<Rightarrow> string" where
  "js_string None = ''undefined''"
| "js_string (Some s) = s"

section \<open>The vendor's requests and responses (geminiService.ts)\<close>

datatype tool = GoogleSearch | GoogleMaps

datatype modality = IMAGE | AUDIO

record latLng =
  latitude :: real
  longitude :: real

datatype req_part =
    TextPart string                \<comment> \<open>\<open>{ text }\<close>\<close>
  | InlineDataPart string string   \<comment> \<open>\<open>{ inlineData: { data, mimeType } }\<close>\<close>

datatype req_contents =
    ContentString string           \<comment> \<open>\<open>contents: prompt\<close>\<close>
  | ContentParts "req_part list"   \<comment> \<open>\<open>contents: { parts: [...] }\<close>\<close>
  | ContentList "req_part list list" \<comment> \<open>\<open>contents: [{ parts: [...] }]\<close>\<close>

record gen_config =
  thinkingConfig :: "nat option"           \<comment> \<open>\<open>{ thinkingBudget }\<close>\<close>
  tools :: "tool list option"
  toolConfig :: "latLng option"            \<comment> \<open>\<open>{ retrievalConfig: { latLng } }\<close>\<close>
  responseModalities :: "modality list option"
  speechConfig :: "string option"          \<comment> \<open>the prebuilt voice name\<close>

record gen_request =
  req_model :: string
  req_contents :: req_contents
  req_config :: gen_config

record inline_data =
  data :: "string option"
  mimeType :: "string option"

record part =
  part_text :: "string option"
  inlineData :: "inline_data option"

record grounding_chunk =
  chunk_uri :: "string option"
  chunk_title :: "string option"

record candidate =
  cand_parts :: "part list option option"
    \<comment> \<open>\<open>content?.parts\<close>: \<open>None\<close> without \<open>content\<close>, \<open>Some None\<close> without \<open>parts\<close>\<close>
  groundingChunks :: "grounding_chunk list option"
    \<comment> \<open>\<open>groundingMetadata?.groundingChunks\<close>\<close>

record gen_response =
  resp_text :: "string option"             \<comment> \<open>the \<open>text\<close> getter\<close>
  candidates :: "candidate list option"

record generated_image =
  gen_image :: "string option option"
    \<comment> \<open>\<open>image?.imageBytes\<close>: \<open>None\<close> without \<open>image\<close>, \<open>Some None\<close> without \<open>imageBytes\<close>\<close>

record img_request =
  img_model :: string
  img_prompt :: string
  numberOfImages :: nat
  outputMimeType :: string
  img_aspectRatio :: string

record video_request =
  vid_model :: string
  vid_prompt :: string
  imageBytes :: string
  vid_mimeType :: string
  numberOfVideos :: nat
  resolution :: string
  vid_aspectRatio :: string

text \<open>types.ts: \<open>VeoOperation\<close>; \<open>response.generatedVideos[i].video.uri\<close> is the i-th string.\<close>

record VeoOperation =
  op_name :: string
  op_done :: bool
  op_response :: "string list option"

record Chat =
  chat_model :: string
  systemInstruction :: string

text \<open>
  The stream of a chat reply: the chunks it yields (each with its \<open>text\<close>, a
  \<open>string | undefined\<close>), then either its end or a thrown error.
\<close>

record chat_stream =
  chunks :: "string option list"
  failure :: "js_error option"

text \<open>Every call of the vendor's client that the application makes.\<close>

datatype vendor_call =
    SendMessageStream Chat string
  | GenerateContent gen_request
  | GenerateImages img_request
  | GenerateVideos video_request
  | GetVideosOperation VeoOperation
  | LiveConnect

text \<open>
  The vendor's service is outside the program: what each call returns or throws is a
  parameter. The refresh of an operation handle may answer differently each time it is
  asked, so it also takes the number of refreshes made before.
\<close>

record vendor =
  sendMessageStream :: "Chat \<Rightarrow> string \<Rightarrow> js_error + chat_stream"
  generateContent :: "gen_request \<Rightarrow> js_error + gen_response"
  generateImages :: "img_request \<Rightarrow> js_error + generated_image list option"
  generateVideos :: "video_request \<Rightarrow> js_error + VeoOperation"
  getVideosOperation :: "nat \<Rightarrow> VeoOperation \<Rightarrow> js_error + VeoOperation"
  liveConnect :: "js_error option"   \<comment> \<open>\<open>live.connect\<close>: the error it throws, if any\<close>

definition createChat :: "string \<Rightarrow> Chat" where
  "createChat instruction =
     \<lparr>chat_model = ''gemini-2.5-flash'', systemInstruction = instruction\<rparr>"

section \<open>Chatbot (App.tsx)\<close>

datatype role = User | Model

record ChatMessage =
  role :: role
  content :: string

record chatbot_state =
  chat :: "Chat option"
  messages :: "ChatMessage list"
  input :: string
  isLoading :: bool

definition chatbot_init :: chatbot_state where
  "chatbot_init = \<lparr>chat = None, messages = [], input = [], isLoading = False\<rparr>"

text \<open>The mount effect: \<open>setChat(api.createChat(...))\<close>.\<close>

definition chatbot_mount :: "chatbot_state \<Rightarrow> chatbot_state" where
  "chatbot_mount st = st\<lparr>chat := Some (createChat ''You are Hareram, a helpful AI assistant.'')\<rparr>"

text \<open>
  The updater \<open>newMessages[newMessages.length - 1].content = modelResponse\<close>. It is only
  run after a message was appended; on an empty list JavaScript would raise inside the
  updater, and the model leaves the list as it is.
\<close>

fun setLastContent :: "string \<Rightarrow> ChatMessage list \<Rightarrow> ChatMessage list" where
  "setLastContent c [] = []"
| "setLastContent c [m] = [m\<lparr>content := c\<rparr>]"
| "setLastContent c (m # ms) = m # setLastContent c ms"

text \<open>The \<open>for await\<close> loop over the chunks: \<open>modelResponse += chunk.text\<close>, then the update.\<close>

fun consume :: "string \<Rightarrow> string option list \<Rightarrow> ChatMessage list \<Rightarrow> ChatMessage list" where
  "consume modelResponse [] ms = ms"
| "consume modelResponse (c # cs) ms =
     consume (modelResponse @ js_string c) cs
       (setLastContent (modelResponse @ js_string c) ms)"

definition errorMessage :: ChatMessage where
  "errorMessage = \<lparr>role = Model, content = ''Sorry, I encountered an error.''\<rparr>"

text \<open>The guard of \<open>handleSend\<close>: \<open>!input.trim() || !chat || isLoading\<close>.\<close>

definition handleSend_rejects :: "chatbot_state \<Rightarrow> bool" where
  "handleSend_rejects st = (trim (input st) = [] \<or> chat st = None \<or> isLoading st)"

text \<open>The part of \<open>handleSend\<close> that runs before the request is awaited.\<close>

definition handleSend_begin :: "chatbot_state \<Rightarrow> chatbot_state" where
  "handleSend_begin st =
     st\<lparr>messages := messages st @ [\<lparr>role = User, content = input st\<rparr>],
        input := [], isLoading := True\<rparr>"

text \<open>The rest of \<open>handleSend\<close>, from the outcome of the request: \<open>try\<close>, \<open>catch\<close>, \<open>finally\<close>.\<close>

definition handleSend_resume :: "js_error + chat_stream \<Rightarrow> chatbot_state \<Rightarrow> chatbot_state" where
  "handleSend_resume outcome st =
     (case outcome of
        Inl e \<Rightarrow> st\<lparr>messages := messages st @ [errorMessage], isLoading := False\<rparr>
      | Inr stream \<Rightarrow>
          (let ms = consume [] (chunks stream) (messages st @ [\<lparr>role = Model, content = []\<rparr>])
           in case failure stream of
                None \<Rightarrow> st\<lparr>messages := ms, isLoading := False\<rparr>
              | Some e \<Rightarrow> st\<lparr>messages := ms @ [errorMessage], isLoading := False\<rparr>))"

text \<open>\<open>handleSend\<close>: the new state and the vendor calls it made.\<close>

definition handleSend :: "vendor \<Rightarrow> chatbot_state \<Rightarrow> chatbot_state \<times> vendor_call list" where
  "handleSend v st =
     (if handleSend_rejects st then (st, [])
      else (case chat st of
              None \<Rightarrow> (st, [])
            | Some c \<Rightarrow>
                (handleSend_resume (sendMessageStream v c (input st)) (handleSend_begin st),
                 [SendMessageStream c (input st)])))"


section \<open>The browser platform\<close>

record File =
  file_name :: string
  file_type :: string

record GeolocationPosition =
  coords_latitude :: real
  coords_longitude :: real

record AudioContext =
  sampleRate :: nat
  ctx_closed :: bool

record AudioBuffer =
  duration :: real

text \<open>
  A buffer source node: its identity, its buffer, the time given to \<open>start\<close>
  (\<open>start()\<close> is \<open>start(0)\<close>: it plays at once), and whether \<open>stop\<close> was called.
\<close>

record AudioBufferSourceNode =
  src_id :: nat
  buffer :: AudioBuffer
  startTime :: real
  stopped :: bool

record MediaStream =
  active :: bool   \<comment> \<open>true while the tracks of the microphone stream are live\<close>

record AudioNode =
  node_connected :: bool

text \<open>
  What the platform answers is a parameter. \<open>fileToBase64\<close> and
  \<open>decodeAudioData(decode(...))\<close> are the helpers of \<open>utils/helpers\<close>, taken as
  parameters as well. \<open>fetchObjectUrl\<close> is \<open>fetch\<close>, \<open>blob\<close> and \<open>createObjectURL\<close>.
\<close>

record browser =
  fileToBase64 :: "File \<Rightarrow> js_error + string"
  decodeAudioData :: "string \<Rightarrow> js_error + AudioBuffer"
  newAudioContext :: "nat \<Rightarrow> js_error + AudioContext"
  getUserMedia :: "js_error + MediaStream"
  fetchObjectUrl :: "string \<Rightarrow> js_error + string"
  apiKey :: "string option"

section \<open>The adapters (geminiService.ts)\<close>

text \<open>Each adapter returns the vendor calls it made and what it returns or throws.\<close>

definition plain_config :: gen_config where
  "plain_config = \<lparr>thinkingConfig = None, tools = None, toolConfig = None,
     responseModalities = None, speechConfig = None\<rparr>"

definition generateText_request ::
  "string \<Rightarrow> bool \<Rightarrow> bool \<Rightarrow> bool \<Rightarrow> GeolocationPosition option \<Rightarrow> gen_request" where
  "generateText_request prompt useThinking useSearch useMaps currentPosition =
     (let modelName = (if useThinking then ''gemini-2.5-pro'' else ''gemini-2.5-flash-lite'');
          tools = (if useSearch then [GoogleSearch] else []) @ (if useMaps then [GoogleMaps] else []);
          config1 = (if useThinking then plain_config\<lparr>thinkingConfig := Some 32768\<rparr>
                     else plain_config);
          config2 = (if length tools > 0 then config1\<lparr>tools := Some tools\<rparr> else config1);
          config3 = (case currentPosition of
                       None \<Rightarrow> config2
                     | Some pos \<Rightarrow>
                         if useMaps
                         then config2\<lparr>toolConfig :=
                                Some \<lparr>latitude = coords_latitude pos,
                                      longitude = coords_longitude pos\<rparr>\<rparr>
                         else config2)
      in \<lparr>req_model = modelName, req_contents = ContentString prompt, req_config = config3\<rparr>)"

definition generateText ::
  "vendor \<Rightarrow> string \<Rightarrow> bool \<Rightarrow> bool \<Rightarrow> bool \<Rightarrow> GeolocationPosition option
     \<Rightarrow> vendor_call list \<times> (js_error + gen_response)" where
  "generateText v prompt useThinking useSearch useMaps currentPosition =
     (let req = generateText_request prompt useThinking useSearch useMaps currentPosition
      in ([GenerateContent req], generateContent v req))"

definition generateImage ::
  "vendor \<Rightarrow> string \<Rightarrow> string \<Rightarrow> vendor_call list \<times> (js_error + string)" where
  "generateImage v prompt aspectRatio =
     (let req = \<lparr>img_model = ''imagen-4.0-generate-001'', img_prompt = prompt,
                 numberOfImages = 1, outputMimeType = ''image/jpeg'',
                 img_aspectRatio = aspectRatio\<rparr>
      in ([GenerateImages req],
          (case generateImages v req of
             Inl e \<Rightarrow> Inl e
           | Inr None \<Rightarrow> Inl (TypeError ''generatedImages is undefined'')
           | Inr (Some []) \<Rightarrow> Inl (TypeError ''generatedImages[0] is undefined'')
           | Inr (Some (g # _)) \<Rightarrow>
               (case gen_image g of
                  None \<Rightarrow> Inl (TypeError ''image is undefined'')
                | Some bytes \<Rightarrow> Inr (''data:image/jpeg;base64,'' @ js_string bytes)))))"

definition analyzeImage ::
  "vendor \<Rightarrow> string \<Rightarrow> string \<Rightarrow> string \<Rightarrow> vendor_call list \<times> (js_error + string option)" where
  "analyzeImage v prompt imageBase64 mime =
     (let req = \<lparr>req_model = ''gemini-2.5-flash'',
                 req_contents = ContentParts [TextPart prompt, InlineDataPart imageBase64 mime],
                 req_config = plain_config\<rparr>
      in ([GenerateContent req],
          (case generateContent v req of Inl e \<Rightarrow> Inl e | Inr response \<Rightarrow> Inr (resp_text response))))"

text \<open>The loop of \<open>editImage\<close> over the parts: the first part with \<open>inlineData\<close> returns.\<close>

fun firstInlineImage :: "part list \<Rightarrow> js_error + string" where
  "firstInlineImage [] = Inl (Error ''No image generated'')"
| "firstInlineImage (p # ps) =
     (case inlineData p of
        Some d \<Rightarrow> Inr (''data:'' @ js_string (mimeType d) @ '';base64,'' @ js_string (data d))
      | None \<Rightarrow> firstInlineImage ps)"

text \<open>
  \<open>response.candidates[0].content.parts\<close>, read without optional chaining: a missing
  link raises a \<open>TypeError\<close>.
\<close>

definition editImage_parts :: "gen_response \<Rightarrow> js_error + part list" where
  "editImage_parts response =
     (case candidates response of
        None \<Rightarrow> Inl (TypeError ''candidates is undefined'')
      | Some [] \<Rightarrow> Inl (TypeError ''candidates[0] is undefined'')
      | Some (c # _) \<Rightarrow>
          (case cand_parts c of
             None \<Rightarrow> Inl (TypeError ''content is undefined'')
           | Some None \<Rightarrow> Inl (TypeError ''parts is not iterable'')
           | Some (Some ps) \<Rightarrow> Inr ps))"

definition editImage_request :: "string \<Rightarrow> string \<Rightarrow> string \<Rightarrow> gen_request" where
  "editImage_request prompt imageBase64 mime =
     \<lparr>req_model = ''gemini-2.5-flash-image'',
      req_contents = ContentParts [InlineDataPart imageBase64 mime, TextPart prompt],
      req_config = plain_config\<lparr>responseModalities := Some [IMAGE]\<rparr>\<rparr>"

definition editImage ::
  "vendor \<Rightarrow> string \<Rightarrow> string \<Rightarrow> string \<Rightarrow> vendor_call list \<times> (js_error + string)" where
  "editImage v prompt imageBase64 mime =
     (let req = editImage_request prompt imageBase64 mime
      in ([GenerateContent req],
          (case generateContent v req of
             Inl e \<Rightarrow> Inl e
           | Inr response \<Rightarrow>
               (case editImage_parts response of
                  Inl e \<Rightarrow> Inl e
                | Inr ps \<Rightarrow> firstInlineImage ps))))"

text \<open>\<open>response.candidates?.[0]?.content?.parts?.[0]?.inlineData?.data\<close>.\<close>

definition speech_base64Audio :: "gen_response \<Rightarrow> string option" where
  "speech_base64Audio response =
     (case candidates response of
        None \<Rightarrow> None
      | Some [] \<Rightarrow> None
      | Some (c # _) \<Rightarrow>
          (case cand_parts c of
             Some (Some (p # _)) \<Rightarrow>
               (case inlineData p of None \<Rightarrow> None | Some d \<Rightarrow> data d)
           | _ \<Rightarrow> None))"

definition generateSpeech_request :: "string \<Rightarrow> gen_request" where
  "generateSpeech_request txt =
     \<lparr>req_model = ''gemini-2.5-flash-preview-tts'',
      req_contents = ContentList [[TextPart txt]],
      req_config = plain_config\<lparr>responseModalities := Some [AUDIO],
                                 speechConfig := Some ''Kore''\<rparr>\<rparr>"

definition generateSpeech ::
  "vendor \<Rightarrow> string \<Rightarrow> vendor_call list \<times> (js_error + string)" where
  "generateSpeech v txt =
     (let req = generateSpeech_request txt
      in ([GenerateContent req],
          (case generateContent v req of
             Inl e \<Rightarrow> Inl e
           | Inr response \<Rightarrow>
               (case speech_base64Audio response of
                  None \<Rightarrow> Inl (Error ''No audio data returned from API'')
                | Some base64Audio \<Rightarrow>
                    if base64Audio = [] then Inl (Error ''No audio data returned from API'')
                    else Inr base64Audio))))"

definition generateVideo_request :: "string \<Rightarrow> string \<Rightarrow> string \<Rightarrow> string \<Rightarrow> video_request" where
  "generateVideo_request prompt imageBase64 mime aspectRatio =
     \<lparr>vid_model = ''veo-3.1-fast-generate-preview'', vid_prompt = prompt,
      imageBytes = imageBase64, vid_mimeType = mime, numberOfVideos = 1,
      resolution = ''720p'', vid_aspectRatio = aspectRatio\<rparr>"

definition generateVideo ::
  "vendor \<Rightarrow> string \<Rightarrow> string \<Rightarrow> string \<Rightarrow> string
     \<Rightarrow> vendor_call list \<times> (js_error + VeoOperation)" where
  "generateVideo v prompt imageBase64 mime aspectRatio =
     (let req = generateVideo_request prompt imageBase64 mime aspectRatio
      in ([GenerateVideos req], generateVideos v req))"

text \<open>\<open>checkVideoOperation\<close>, as the \<open>n\<close>-th refresh of a handle (counted from 0).\<close>

definition checkVideoOperation ::
  "vendor \<Rightarrow> nat \<Rightarrow> VeoOperation \<Rightarrow> vendor_call list \<times> (js_error + VeoOperation)" where
  "checkVideoOperation v n operation =
     ([GetVideosOperation operation], getVideosOperation v n operation)"

definition connectLive :: "vendor \<Rightarrow> vendor_call list \<times> js_error option" where
  "connectLive v = ([LiveConnect], liveConnect v)"

section \<open>TextGenerator (App.tsx)\<close>

record text_state =
  tg_prompt :: string
  tg_response :: "string option"
  tg_isLoading :: bool
  useThinking :: bool
  useSearch :: bool
  useMaps :: bool
  tg_groundingChunks :: "grounding_chunk list"
  tg_error :: string
  position :: "GeolocationPosition option"

definition text_init :: text_state where
  "text_init = \<lparr>tg_prompt = [], tg_response = Some [], tg_isLoading = False,
     useThinking = False, useSearch = False, useMaps = False, tg_groundingChunks = [],
     tg_error = [], position = None\<rparr>"

text \<open>
  The effect on \<open>[useMaps, position]\<close> asks the platform for the position when
  \<open>useMaps && !position\<close>. The platform answers later through one of the two
  callbacks, \<open>onPosition\<close> or \<open>onPositionError\<close>.
\<close>

definition positionEffect_asks :: "text_state \<Rightarrow> bool" where
  "positionEffect_asks st = (useMaps st \<and> position st = None)"

text \<open>
  The Maps checkbox, \<open>setUseMaps(checked)\<close>: the new state, and whether the effect asked
  for the position (it runs when \<open>useMaps\<close> changed).
\<close>

definition setUseMaps :: "bool \<Rightarrow> text_state \<Rightarrow> text_state \<times> bool" where
  "setUseMaps checked st =
     (st\<lparr>useMaps := checked\<rparr>,
      useMaps st \<noteq> checked \<and> positionEffect_asks (st\<lparr>useMaps := checked\<rparr>))"

definition onPosition :: "GeolocationPosition \<Rightarrow> text_state \<Rightarrow> text_state" where
  "onPosition pos st = st\<lparr>position := Some pos\<rparr>"

definition onPositionError :: "text_state \<Rightarrow> text_state" where
  "onPositionError st =
     st\<lparr>tg_error := ''Could not get location for Maps. Please grant permission.''\<rparr>"

definition firstGroundingChunks :: "gen_response \<Rightarrow> grounding_chunk list" where
  "firstGroundingChunks result =
     (case candidates result of
        None \<Rightarrow> []
      | Some [] \<Rightarrow> []
      | Some (c # _) \<Rightarrow> (case groundingChunks c of None \<Rightarrow> [] | Some gs \<Rightarrow> gs))"

definition text_handleSubmit :: "vendor \<Rightarrow> text_state \<Rightarrow> text_state \<times> vendor_call list" where
  "text_handleSubmit v st =
     (if trim (tg_prompt st) = [] then (st, [])
      else
        (let st1 = st\<lparr>tg_isLoading := True, tg_response := Some [],
                       tg_groundingChunks := [], tg_error := []\<rparr>;
             (calls, outcome) = generateText v (tg_prompt st) (useThinking st) (useSearch st)
                                  (useMaps st) (position st)
         in (case outcome of
               Inr result \<Rightarrow>
                 st1\<lparr>tg_response := resp_text result,
                     tg_groundingChunks := firstGroundingChunks result,
                     tg_isLoading := False\<rparr>
             | Inl e \<Rightarrow>
                 st1\<lparr>tg_error := ''Failed to generate text. Please try again.'',
                     tg_isLoading := False\<rparr>,
             calls)))"

section \<open>ImageGenerator (App.tsx)\<close>

record image_state =
  ig_prompt :: string
  ig_aspectRatio :: string
  ig_imageUrl :: string
  ig_isLoading :: bool
  ig_error :: string

definition image_handleSubmit :: "vendor \<Rightarrow> image_state \<Rightarrow> image_state \<times> vendor_call list" where
  "image_handleSubmit v st =
     (if trim (ig_prompt st) = [] then (st, [])
      else
        (let st1 = st\<lparr>ig_isLoading := True, ig_imageUrl := [], ig_error := []\<rparr>;
             (calls, outcome) = generateImage v (ig_prompt st) (ig_aspectRatio st)
         in (case outcome of
               Inr url \<Rightarrow> st1\<lparr>ig_imageUrl := url, ig_isLoading := False\<rparr>
             | Inl e \<Rightarrow>
                 st1\<lparr>ig_error := ''Failed to generate image. Please try again.'',
                     ig_isLoading := False\<rparr>,
             calls)))"

section \<open>ImageEditor (App.tsx)\<close>

record edit_state =
  ie_prompt :: string
  originalImage :: "File option"
  originalImageUrl :: string
  editedImageUrl :: string
  ie_isLoading :: bool
  ie_error :: string

definition edit_handleSubmit ::
  "vendor \<Rightarrow> browser \<Rightarrow> edit_state \<Rightarrow> edit_state \<times> vendor_call list" where
  "edit_handleSubmit v b st =
     (if trim (ie_prompt st) = [] then (st, [])
      else (case originalImage st of
              None \<Rightarrow> (st, [])
            | Some file \<Rightarrow>
                (let st1 = st\<lparr>ie_isLoading := True, editedImageUrl := [], ie_error := []\<rparr>;
                     failed = st1\<lparr>ie_error := ''Failed to edit image. Please try again.'',
                                  ie_isLoading := False\<rparr>
                 in (case fileToBase64 b file of
                       Inl e \<Rightarrow> (failed, [])
                     | Inr base64 \<Rightarrow>
                         (let (calls, outcome) = editImage v (ie_prompt st) base64 (file_type file)
                          in (case outcome of
                                Inr url \<Rightarrow> st1\<lparr>editedImageUrl := url, ie_isLoading := False\<rparr>
                              | Inl e \<Rightarrow> failed,
                              calls))))))"

section \<open>ImageAnalyzer (App.tsx)\<close>

record analyze_state =
  ia_prompt :: string
  ia_imageFile :: "File option"
  ia_imageUrl :: string
  analysis :: "string option"
  ia_isLoading :: bool
  ia_error :: string

definition analyze_handleSubmit ::
  "vendor \<Rightarrow> browser \<Rightarrow> analyze_state \<Rightarrow> analyze_state \<times> vendor_call list" where
  "analyze_handleSubmit v b st =
     (if trim (ia_prompt st) = [] then (st, [])
      else (case ia_imageFile st of
              None \<Rightarrow> (st, [])
            | Some file \<Rightarrow>
                (let st1 = st\<lparr>ia_isLoading := True, analysis := Some [], ia_error := []\<rparr>;
                     failed = st1\<lparr>ia_error := ''Failed to analyze image.'',
                                  ia_isLoading := False\<rparr>
                 in (case fileToBase64 b file of
                       Inl e \<Rightarrow> (failed, [])
                     | Inr base64 \<Rightarrow>
                         (let (calls, outcome) = analyzeImage v (ia_prompt st) base64 (file_type file)
                          in (case outcome of
                                Inr result \<Rightarrow> st1\<lparr>analysis := result, ia_isLoading := False\<rparr>
                              | Inl e \<Rightarrow> failed,
                              calls))))))"

section \<open>TextToSpeech (App.tsx)\<close>

record speech_state =
  tts_text :: string
  tts_isLoading :: bool
  tts_error :: string
  tts_audioContextRef :: "AudioContext option"
  audioSourceRef :: "AudioBufferSourceNode option"

definition handleSpeak ::
  "vendor \<Rightarrow> browser \<Rightarrow> speech_state \<Rightarrow> speech_state \<times> vendor_call list" where
  "handleSpeak v b st =
     (if trim (tts_text st) = [] then (st, [])
      else
        (let st1 = st\<lparr>tts_isLoading := True, tts_error := [],
                       audioSourceRef := map_option (\<lambda>s. s\<lparr>stopped := True\<rparr>) (audioSourceRef st)\<rparr>;
             failed = (\<lambda>s. s\<lparr>tts_error := ''Failed to generate speech.'', tts_isLoading := False\<rparr>)
         in (case (case tts_audioContextRef st1 of
                     Some ctx \<Rightarrow> Inr st1
                   | None \<Rightarrow> (case newAudioContext b 24000 of
                               Inl e \<Rightarrow> Inl e
                             | Inr ctx \<Rightarrow> Inr (st1\<lparr>tts_audioContextRef := Some ctx\<rparr>))) of
               Inl e \<Rightarrow> (failed st1, [])
             | Inr st2 \<Rightarrow>
                 (let (calls, outcome) = generateSpeech v (tts_text st)
                  in (case outcome of
                        Inl e \<Rightarrow> failed st2
                      | Inr base64Audio \<Rightarrow>
                          (case decodeAudioData b base64Audio of
                             Inl e \<Rightarrow> failed st2
                           | Inr audioBuffer \<Rightarrow>
                               st2\<lparr>audioSourceRef :=
                                      Some \<lparr>src_id = 0, buffer = audioBuffer,
                                            startTime = 0, stopped = False\<rparr>,
                                   tts_isLoading := False\<rparr>),
                      calls)))))"

section \<open>VideoGenerator (App.tsx)\<close>

record video_state =
  vg_prompt :: string
  vg_imageFile :: "File option"
  vg_imageUrl :: string
  vg_aspectRatio :: string
  videoUrl :: string
  vg_isLoading :: bool
  loadingMessage :: string
  vg_error :: string
  apiKeySelected :: bool
  operationRef :: "VeoOperation option"

text \<open>
  The \<open>while\<close> loop of \<open>pollOperation\<close>. It has no bound of its own, so its result is
  optional: \<open>None\<close> when it never leaves the loop. Otherwise the result says whether
  the \<open>catch\<close> branch returned from \<open>pollOperation\<close>, and gives the refreshes made and
  the state. The 10 second timer between two refreshes is not modelled.
\<close>

partial_function (option) pollLoop ::
  "vendor \<Rightarrow> vendor_call list \<Rightarrow> video_state \<Rightarrow> (bool \<times> vendor_call list \<times> video_state) option"
where
  "pollLoop v calls st =
     (case operationRef st of
        None \<Rightarrow> Some (False, calls, st)
      | Some operation \<Rightarrow>
          if op_done operation then Some (False, calls, st)
          else
            (case snd (checkVideoOperation v (length calls) operation) of
               Inl e \<Rightarrow>
                 Some (True, calls @ fst (checkVideoOperation v (length calls) operation),
                       st\<lparr>loadingMessage := ''Processing video... this can take a few minutes.'',
                          vg_error := ''Failed to check video status. The API key might be invalid.'',
                          vg_isLoading := False,
                          apiKeySelected := False\<rparr>)
             | Inr operation' \<Rightarrow>
                 pollLoop v (calls @ fst (checkVideoOperation v (length calls) operation))
                   (st\<lparr>loadingMessage := ''Processing video... this can take a few minutes.'',
                      operationRef := Some operation'\<rparr>)))"

text \<open>\<open>operationRef.current.response?.generatedVideos?.[0]?.video?.uri\<close>.\<close>

definition firstVideoUri :: "VeoOperation \<Rightarrow> string option" where
  "firstVideoUri operation =
     (case op_response operation of
        None \<Rightarrow> None
      | Some [] \<Rightarrow> None
      | Some (uri # _) \<Rightarrow> Some uri)"

text \<open>The part of \<open>pollOperation\<close> after the loop; the first component is what it throws.\<close>

definition pollOperation_finish :: "browser \<Rightarrow> video_state \<Rightarrow> js_error option \<times> video_state" where
  "pollOperation_finish b st =
     (case operationRef st of
        None \<Rightarrow> (None, st)
      | Some operation \<Rightarrow>
          if op_done operation then
            (case firstVideoUri operation of
               None \<Rightarrow>
                 (None, st\<lparr>vg_error := ''Video generation completed, but no video was returned.'',
                           vg_isLoading := False\<rparr>)
             | Some uri \<Rightarrow>
                 if uri = [] then
                   (None, st\<lparr>vg_error := ''Video generation completed, but no video was returned.'',
                             vg_isLoading := False\<rparr>)
                 else
                   (case fetchObjectUrl b (uri @ ''&key='' @ js_string (apiKey b)) of
                      Inl e \<Rightarrow> (Some e, st)
                    | Inr url \<Rightarrow> (None, st\<lparr>videoUrl := url, vg_isLoading := False\<rparr>)))
          else (None, st))"

definition pollOperation ::
  "vendor \<Rightarrow> browser \<Rightarrow> VeoOperation \<Rightarrow> video_state
     \<Rightarrow> (js_error option \<times> vendor_call list \<times> video_state) option" where
  "pollOperation v b op0 st =
     (case pollLoop v [] (st\<lparr>operationRef := Some op0\<rparr>) of
        None \<Rightarrow> None
      | Some (returned, calls, st1) \<Rightarrow>
          if returned then Some (None, calls, st1)
          else Some (fst (pollOperation_finish b st1), calls, snd (pollOperation_finish b st1)))"

text \<open>\<open>e.message?.includes("Requested entity was not found")\<close>.\<close>

definition auth_error :: "js_error \<Rightarrow> bool" where
  "auth_error e =
     (case message e of
        None \<Rightarrow> False
      | Some m \<Rightarrow> str_includes m ''Requested entity was not found'')"

text \<open>The \<open>catch\<close> branch of \<open>handleSubmit\<close>.\<close>

definition video_catch :: "js_error \<Rightarrow> video_state \<Rightarrow> video_state" where
  "video_catch e st =
     (if auth_error e
      then st\<lparr>vg_error := ''API Key error. Please select your API key again.'',
              apiKeySelected := False, vg_isLoading := False\<rparr>
      else st\<lparr>vg_error := ''Failed to start video generation.'', vg_isLoading := False\<rparr>)"

text \<open>\<open>handleSubmit\<close> of the video view; \<open>None\<close> when the polling loop never ends.\<close>

definition video_handleSubmit ::
  "vendor \<Rightarrow> browser \<Rightarrow> video_state \<Rightarrow> (video_state \<times> vendor_call list) option" where
  "video_handleSubmit v b st =
     (if trim (vg_prompt st) = [] then Some (st, [])
      else (case vg_imageFile st of
              None \<Rightarrow> Some (st, [])
            | Some file \<Rightarrow>
                (let st1 = st\<lparr>vg_isLoading := True, videoUrl := [], vg_error := [],
                               loadingMessage := ''Starting video generation...''\<rparr>
                 in (case fileToBase64 b file of
                       Inl e \<Rightarrow> Some (video_catch e st1, [])
                     | Inr base64 \<Rightarrow>
                         (let (calls, outcome) =
                                generateVideo v (vg_prompt st) base64 (file_type file)
                                  (vg_aspectRatio st)
                          in (case outcome of
                                Inl e \<Rightarrow> Some (video_catch e st1, calls)
                              | Inr initialOp \<Rightarrow>
                                  (case pollOperation v b initialOp st1 of
                                     None \<Rightarrow> None
                                   | Some (None, polls, st2) \<Rightarrow> Some (st2, calls @ polls)
                                   | Some (Some e, polls, st2) \<Rightarrow>
                                       Some (video_catch e st2, calls @ polls))))))))"

section \<open>LiveAgent (App.tsx)\<close>

text \<open>
  A message of the live session: \<open>serverContent?\<close>, with \<open>modelTurn?\<close> (whose \<open>parts\<close>
  may be missing too) and the \<open>interrupted\<close> flag.
\<close>

record server_content =
  modelTurn :: "part list option option"
    \<comment> \<open>\<open>None\<close> without \<open>modelTurn\<close>, \<open>Some None\<close> for a \<open>modelTurn\<close> without \<open>parts\<close>\<close>
  interrupted :: bool

record live_message =
  serverContent :: "server_content option"

text \<open>
  The refs and the state of the view, and the objects they reach: \<open>stream\<close> is the
  microphone stream that \<open>startSession\<close> holds in a local variable, \<open>sources\<close> are
  the buffer source nodes created so far (\<open>src_id\<close> is the position in this list),
  \<open>audioQueueRef\<close> is the set of the queued ones, \<open>sessionPromiseRef\<close> is the number of
  the connection it holds, \<open>closeRequests\<close> are the connections on which \<open>close\<close>
  was asked for.
\<close>

record live_state =
  isSessionActive :: bool
  status :: string
  sessionPromiseRef :: "nat option"
  audioContextRef :: "AudioContext option"
  scriptProcessorRef :: "AudioNode option"
  mediaStreamSourceRef :: "AudioNode option"
  outputAudioContextRef :: "AudioContext option"
  nextStartTimeRef :: real
  audioQueueRef :: "nat set"
  stream :: "MediaStream option"
  sources :: "AudioBufferSourceNode list"
  connections :: nat
  closeRequests :: "nat list"

definition live_init :: live_state where
  "live_init = \<lparr>isSessionActive = False, status = ''Not connected. Press Start to talk.'',
     sessionPromiseRef = None, audioContextRef = None, scriptProcessorRef = None,
     mediaStreamSourceRef = None, outputAudioContextRef = None, nextStartTimeRef = 0,
     audioQueueRef = {}, stream = None, sources = [], connections = 0, closeRequests = []\<rparr>"

text \<open>\<open>for (const source of audioQueueRef.current.values()) source.stop()\<close>.\<close>

definition stopSources :: "nat set \<Rightarrow> AudioBufferSourceNode list \<Rightarrow> AudioBufferSourceNode list" where
  "stopSources queue srcs = map (\<lambda>s. if src_id s \<in> queue then s\<lparr>stopped := True\<rparr> else s) srcs"

definition stopSession :: "bool \<Rightarrow> live_state \<Rightarrow> live_state" where
  "stopSession shouldClose st =
     st\<lparr>closeRequests :=
          (case sessionPromiseRef st of
             None \<Rightarrow> closeRequests st
           | Some c \<Rightarrow> if shouldClose then closeRequests st @ [c] else closeRequests st),
        scriptProcessorRef := map_option (\<lambda>n. n\<lparr>node_connected := False\<rparr>) (scriptProcessorRef st),
        mediaStreamSourceRef := map_option (\<lambda>n. n\<lparr>node_connected := False\<rparr>) (mediaStreamSourceRef st),
        audioContextRef := map_option (\<lambda>c. c\<lparr>ctx_closed := True\<rparr>) (audioContextRef st),
        sources := stopSources (audioQueueRef st) (sources st),
        audioQueueRef := {},
        outputAudioContextRef := map_option (\<lambda>c. c\<lparr>ctx_closed := True\<rparr>) (outputAudioContextRef st),
        isSessionActive := False,
        status := ''Not connected. Press Start to talk.'',
        sessionPromiseRef := None\<rparr>"

text \<open>\<open>startSession\<close>, up to the point where the channel is being opened.\<close>

definition startSession :: "vendor \<Rightarrow> browser \<Rightarrow> live_state \<Rightarrow> live_state \<times> vendor_call list" where
  "startSession v b st =
     (let st1 = st\<lparr>isSessionActive := True, status := ''Connecting...''\<rparr>;
          denied = (\<lambda>s. s\<lparr>status := ''Microphone access denied. Please enable it in your browser settings.'',
                          isSessionActive := False\<rparr>)
      in (case getUserMedia b of
            Inl e \<Rightarrow> (denied st1, [])
          | Inr mic \<Rightarrow>
              (let st2 = st1\<lparr>stream := Some mic\<rparr>
               in (case newAudioContext b 16000 of
                     Inl e \<Rightarrow> (denied st2, [])
                   | Inr inCtx \<Rightarrow>
                       (let st3 = st2\<lparr>audioContextRef := Some inCtx\<rparr>
                        in (case newAudioContext b 24000 of
                              Inl e \<Rightarrow> (denied st3, [])
                            | Inr outCtx \<Rightarrow>
                                (let st4 = st3\<lparr>outputAudioContextRef := Some outCtx\<rparr>;
                                     (calls, thrown) = connectLive v
                                 in (case thrown of
                                       Some e \<Rightarrow> (denied st4, calls)
                                     | None \<Rightarrow>
                                         (st4\<lparr>sessionPromiseRef := Some (connections st4),
                                              connections := Suc (connections st4)\<rparr>,
                                          calls)))))))))"


text \<open>
  \<open>message.serverContent?.modelTurn?.parts[0]?.inlineData?.data\<close>: \<open>parts\<close> is indexed
  without optional chaining, which raises when \<open>modelTurn\<close> has no \<open>parts\<close>.
\<close>

definition base64Audio :: "live_message \<Rightarrow> js_error + string option" where
  "base64Audio msg =
     (case serverContent msg of
        None \<Rightarrow> Inr None
      | Some sc \<Rightarrow>
          (case modelTurn sc of
             None \<Rightarrow> Inr None
           | Some None \<Rightarrow> Inl (TypeError ''parts is undefined'')
           | Some (Some []) \<Rightarrow> Inr None
           | Some (Some (p # _)) \<Rightarrow>
               Inr (case inlineData p of None \<Rightarrow> None | Some d \<Rightarrow> data d)))"

text \<open>\<open>message.serverContent?.interrupted\<close>.\<close>

definition msg_interrupted :: "live_message \<Rightarrow> bool" where
  "msg_interrupted msg = (case serverContent msg of None \<Rightarrow> False | Some sc \<Rightarrow> interrupted sc)"

text \<open>
  The first \<open>if\<close> of \<open>onmessage\<close>: the chunk is scheduled. \<open>now\<close> is the
  \<open>currentTime\<close> that the output context shows when the message is handled.
\<close>

definition scheduleChunk ::
  "browser \<Rightarrow> real \<Rightarrow> string \<Rightarrow> live_state \<Rightarrow> js_error option \<times> live_state" where
  "scheduleChunk b now audio st =
     (let st1 = st\<lparr>nextStartTimeRef := max (nextStartTimeRef st) now\<rparr>
      in (case decodeAudioData b audio of
            Inl e \<Rightarrow> (Some e, st1)
          | Inr audioBuffer \<Rightarrow>
              (let source = \<lparr>src_id = length (sources st1), buffer = audioBuffer,
                             startTime = nextStartTimeRef st1, stopped = False\<rparr>
               in (None, st1\<lparr>sources := sources st1 @ [source],
                              nextStartTimeRef := nextStartTimeRef st1 + duration audioBuffer,
                              audioQueueRef := insert (src_id source) (audioQueueRef st1)\<rparr>))))"

text \<open>The second \<open>if\<close> of \<open>onmessage\<close>: the queue is flushed.\<close>

definition flushQueue :: "live_state \<Rightarrow> live_state" where
  "flushQueue st =
     st\<lparr>sources := stopSources (audioQueueRef st) (sources st),
        audioQueueRef := {},
        nextStartTimeRef := 0\<rparr>"

text \<open>
  The \<open>onmessage\<close> callback: what it throws, if anything, and the state it leaves.
  Each message is handled to its end before the next one.
\<close>

definition onmessage ::
  "browser \<Rightarrow> real \<Rightarrow> live_message \<Rightarrow> live_state \<Rightarrow> js_error option \<times> live_state" where
  "onmessage b now msg st =
     (case base64Audio msg of
        Inl e \<Rightarrow> (Some e, st)
      | Inr audio \<Rightarrow>
          (let (thrown, st1) =
                 (case audio of
                    None \<Rightarrow> (None, st)
                  | Some a \<Rightarrow>
                      if a \<noteq> [] \<and> outputAudioContextRef st \<noteq> None
                      then scheduleChunk b now a st
                      else (None, st))
           in (case thrown of
                 Some e \<Rightarrow> (Some e, st1)
               | None \<Rightarrow> (None, if msg_interrupted msg then flushQueue st1 else st1))))"

text \<open>The \<open>ended\<close> listener of a source, \<open>onerror\<close> and \<open>onclose\<close>.\<close>

definition onended :: "nat \<Rightarrow> live_state \<Rightarrow> live_state" where
  "onended i st = st\<lparr>audioQueueRef := audioQueueRef st - {i}\<rparr>"

definition onerror :: "live_state \<Rightarrow> live_state" where
  "onerror st = stopSession True (st\<lparr>status := ''Connection error. Please try again.''\<rparr>)"

definition onclose :: "live_state \<Rightarrow> live_state" where
  "onclose st = stopSession False (st\<lparr>status := ''Connection closed.''\<rparr>)"

text \<open>The events of a live session after it was started, and a run of them.\<close>

datatype live_event =
    Message real live_message
  | Ended nat

fun live_step :: "browser \<Rightarrow> live_event \<Rightarrow> live_state \<Rightarrow> live_state" where
  "live_step b (Message now msg) st = snd (onmessage b now msg st)"
| "live_step b (Ended i) st = onended i st"

fun live_run :: "browser \<Rightarrow> live_event list \<Rightarrow> live_state \<Rightarrow> live_state" where
  "live_run b [] st = st"
| "live_run b (ev # evs) st = live_run b evs (live_step b ev st)"

section \<open>What a chat session should show\<close>




text \<open>
  The view between its events: the user types (the field is disabled while loading),
  presses send, or the vendor answers the oldest request that is still waiting. The
  second component holds the requests that wait for their answer.
\<close>

datatype chat_event = Type string | Send | Reply "js_error + chat_stream"

fun chat_step ::
  "chat_event \<Rightarrow> chatbot_state \<times> vendor_call list \<Rightarrow> chatbot_state \<times> vendor_call list" where
  "chat_step (Type t) (st, pending) =
     (if isLoading st then (st, pending) else (st\<lparr>input := t\<rparr>, pending))"
| "chat_step Send (st, pending) =
     (if handleSend_rejects st then (st, pending)
      else (case chat st of
              None \<Rightarrow> (st, pending)
            | Some c \<Rightarrow> (handleSend_begin st, pending @ [SendMessageStream c (input st)])))"
| "chat_step (Reply outcome) (st, pending) =
     (case pending of
        [] \<Rightarrow> (st, pending)
      | _ # rest \<Rightarrow> (handleSend_resume outcome st, rest))"

fun chat_run ::
  "chat_event list \<Rightarrow> chatbot_state \<times> vendor_call list \<Rightarrow> chatbot_state \<times> vendor_call list" where
  "chat_run [] w = w"
| "chat_run (e # es) w = chat_run es (chat_step e w)"

definition one_in_flight :: "chatbot_state \<times> vendor_call list \<Rightarrow> bool" where
  "one_in_flight w = (length (snd w) \<le> 1 \<and> (snd w \<noteq> [] \<longrightarrow> isLoading (fst w)))"

section \<open>Observations on requests and responses\<close>

text \<open>The coordinates that a vendor call carries in its \<open>toolConfig\<close>.\<close>

fun call_coords :: "vendor_call \<Rightarrow> latLng option" where
  "call_coords (GenerateContent req) = toolConfig (req_config req)"
| "call_coords _ = None"

text \<open>No part of any candidate of the response has an \<open>inlineData\<close> object.\<close>

definition no_inline_data :: "gen_response \<Rightarrow> bool" where
  "no_inline_data response =
     (case candidates response of
        None \<Rightarrow> True
      | Some cs \<Rightarrow>
          list_all (\<lambda>c. case cand_parts c of
                          Some (Some ps) \<Rightarrow> list_all (\<lambda>p. inlineData p = None) ps
                        | _ \<Rightarrow> True) cs)"

text \<open>
  No part of any candidate of the response contains inline data: where a part has an
  \<open>inlineData\<close> object, its \<open>data\<close> is missing or empty.
\<close>

definition no_payload :: "part \<Rightarrow> bool" where
  "no_payload p =
     (case inlineData p of
        None \<Rightarrow> True
      | Some d \<Rightarrow> (case data d of None \<Rightarrow> True | Some bytes \<Rightarrow> bytes = []))"

definition no_inline_payload :: "gen_response \<Rightarrow> bool" where
  "no_inline_payload response =
     (case candidates response of
        None \<Rightarrow> True
      | Some cs \<Rightarrow>
          list_all (\<lambda>c. case cand_parts c of
                          Some (Some ps) \<Rightarrow> list_all no_payload ps
                        | _ \<Rightarrow> True) cs)"

section \<open>The history of an operation handle\<close>

text \<open>
  The handle that polling holds after at most \<open>k\<close> refreshes, when \<open>n\<close> refreshes
  were made before: a handle that reports completion is kept, a refresh that fails
  ends the history with its error.
\<close>

fun handle_after :: "vendor \<Rightarrow> nat \<Rightarrow> VeoOperation \<Rightarrow> nat \<Rightarrow> js_error + VeoOperation" where
  "handle_after v n operation 0 = Inr operation"
| "handle_after v n operation (Suc k) =
     (if op_done operation then Inr operation
      else (case getVideosOperation v n operation of
              Inl e \<Rightarrow> Inl e
            | Inr operation' \<Rightarrow> handle_after v (Suc n) operation' k))"

text \<open>The handle never reports completion and no refresh fails.\<close>

definition never_done :: "vendor \<Rightarrow> nat \<Rightarrow> VeoOperation \<Rightarrow> bool" where
  "never_done v n operation =
     (\<forall>k. \<exists>opk. handle_after v n operation k = Inr opk \<and> \<not> op_done opk)"

section \<open>The playback queue\<close>

text \<open>
  The queued sources in the order of their creation, and the end of the interval that a
  source was scheduled for.
\<close>

definition queued :: "live_state \<Rightarrow> AudioBufferSourceNode list" where
  "queued st = filter (\<lambda>s. src_id s \<in> audioQueueRef st) (sources st)"

definition endTime :: "AudioBufferSourceNode \<Rightarrow> real" where
  "endTime s = startTime s + duration (buffer s)"

text \<open>
  The queue is gapless and free of overlap: each queued source ends before every queued
  source created after it starts, and all of them end by the cursor. (The identities of
  the sources are below the number of sources, so a new source gets a fresh one.)
\<close>

definition no_overlap :: "live_state \<Rightarrow> bool" where
  "no_overlap st =
     (sorted_wrt (\<lambda>s s'. endTime s \<le> startTime s') (queued st) \<and>
      (\<forall>s\<in>set (queued st). endTime s \<le> nextStartTimeRef st) \<and>
      (\<forall>s\<in>set (sources st). src_id s < length (sources st)))"

fun interrupts :: "live_event \<Rightarrow> bool" where
  "interrupts (Message now msg) = msg_interrupted msg"
| "interrupts (Ended i) = False"

definition good_decoder :: "browser \<Rightarrow> bool" where
  "good_decoder b = (\<forall>a buf. decodeAudioData b a = Inr buf \<longrightarrow> 0 \<le> duration buf)"

section \<open>Concrete vendors, browsers and states\<close>

definition silent_vendor :: vendor where
  "silent_vendor =
     \<lparr>sendMessageStream = (\<lambda>c m. Inl Thrown),
      generateContent = (\<lambda>r. Inl Thrown),
      generateImages = (\<lambda>r. Inl Thrown),
      generateVideos = (\<lambda>r. Inl Thrown),
      getVideosOperation = (\<lambda>n operation. Inl Thrown),
      liveConnect = None\<rparr>"

definition stream_vendor :: "js_error + chat_stream \<Rightarrow> vendor" where
  "stream_vendor outcome = silent_vendor\<lparr>sendMessageStream := (\<lambda>c m. outcome)\<rparr>"

definition hareram_chat :: Chat where
  "hareram_chat = createChat ''You are Hareram, a helpful AI assistant.''"

definition chat_ready :: chatbot_state where
  "chat_ready = (chatbot_mount chatbot_init)\<lparr>input := ''hi''\<rparr>"

definition hello_stream :: chat_stream where
  "hello_stream = \<lparr>chunks = [Some ''Hel'', Some ''lo''], failure = None\<rparr>"


definition reply_vendor :: "js_error + gen_response \<Rightarrow> vendor" where
  "reply_vendor outcome = silent_vendor\<lparr>generateContent := (\<lambda>r. outcome)\<rparr>"

definition silent_browser :: browser where
  "silent_browser =
     \<lparr>fileToBase64 = (\<lambda>f. Inl Thrown),
      decodeAudioData = (\<lambda>d. Inl Thrown),
      newAudioContext = (\<lambda>rate. Inl Thrown),
      getUserMedia = Inl Thrown,
      fetchObjectUrl = (\<lambda>url. Inl Thrown),
      apiKey = None\<rparr>"

definition text_only_response :: gen_response where
  "text_only_response =
     \<lparr>resp_text = Some ''done'',
      candidates =
        Some [\<lparr>cand_parts = Some (Some [\<lparr>part_text = Some ''done'', inlineData = None\<rparr>]),
               groundingChunks = None\<rparr>]\<rparr>"

text \<open>A response whose only part has an \<open>inlineData\<close> object without \<open>data\<close>.\<close>

definition dataless_response :: gen_response where
  "dataless_response =
     \<lparr>resp_text = None,
      candidates =
        Some [\<lparr>cand_parts =
                 Some (Some [\<lparr>part_text = None,
                              inlineData = Some \<lparr>data = None, mimeType = Some ''image/png''\<rparr>\<rparr>]),
               groundingChunks = None\<rparr>]\<rparr>"

definition berlin :: GeolocationPosition where
  "berlin = \<lparr>coords_latitude = 52.5, coords_longitude = 13.25\<rparr>"

definition blank_text :: text_state where
  "blank_text = text_init\<lparr>tg_prompt := ''  ''\<rparr>"

definition blank_image :: image_state where
  "blank_image = \<lparr>ig_prompt = [CHR 0x09], ig_aspectRatio = ''1:1'', ig_imageUrl = [],
     ig_isLoading = False, ig_error = []\<rparr>"

definition blank_edit :: edit_state where
  "blank_edit = \<lparr>ie_prompt = [], originalImage = Some \<lparr>file_name = ''a.png'', file_type = ''image/png''\<rparr>,
     originalImageUrl = ''blob:1'', editedImageUrl = [], ie_isLoading = False, ie_error = []\<rparr>"

definition blank_analyze :: analyze_state where
  "blank_analyze = \<lparr>ia_prompt = '' '', ia_imageFile = Some \<lparr>file_name = ''a.png'', file_type = ''image/png''\<rparr>,
     ia_imageUrl = ''blob:1'', analysis = Some [], ia_isLoading = False, ia_error = []\<rparr>"

definition blank_speech :: speech_state where
  "blank_speech = \<lparr>tts_text = [CHR 0x0A, CHR 0x20], tts_isLoading = False, tts_error = [],
     tts_audioContextRef = None, audioSourceRef = None\<rparr>"

definition pending_op :: VeoOperation where
  "pending_op = \<lparr>op_name = ''operations/1'', op_done = False, op_response = None\<rparr>"

definition empty_done_op :: VeoOperation where
  "empty_done_op = \<lparr>op_name = ''operations/1'', op_done = True, op_response = Some []\<rparr>"

text \<open>A vendor whose handle stays pending for ever.\<close>

definition pending_vendor :: vendor where
  "pending_vendor =
     silent_vendor\<lparr>generateVideos := (\<lambda>r. Inr pending_op),
                   getVideosOperation := (\<lambda>n operation. Inr operation)\<rparr>"

text \<open>A vendor whose handle completes at the third refresh, without a video.\<close>

definition slow_vendor :: vendor where
  "slow_vendor =
     silent_vendor\<lparr>generateVideos := (\<lambda>r. Inr pending_op),
                   getVideosOperation :=
                     (\<lambda>n operation. if n < 2 then Inr operation else Inr empty_done_op)\<rparr>"

text \<open>A vendor that rejects the submission, and one whose second refresh fails.\<close>

definition rejecting_vendor :: vendor where
  "rejecting_vendor =
     silent_vendor\<lparr>generateVideos := (\<lambda>r. Inl (Error ''404: Requested entity was not found.''))\<rparr>"

definition flaky_vendor :: vendor where
  "flaky_vendor =
     silent_vendor\<lparr>generateVideos := (\<lambda>r. Inr pending_op),
                   getVideosOperation :=
                     (\<lambda>n operation. if n < 1 then Inr operation else Inl (Error ''503''))\<rparr>"

definition reading_browser :: browser where
  "reading_browser = silent_browser\<lparr>fileToBase64 := (\<lambda>f. Inr ''AAAA'')\<rparr>"

definition video_ready :: video_state where
  "video_ready =
     \<lparr>vg_prompt = ''a cat'', vg_imageFile = Some \<lparr>file_name = ''a.png'', file_type = ''image/png''\<rparr>,
      vg_imageUrl = ''blob:1'', vg_aspectRatio = ''16:9'', videoUrl = [], vg_isLoading = False,
      loadingMessage = [], vg_error = [], apiKeySelected = True, operationRef = None\<rparr>"

text \<open>A browser that grants the microphone and decodes every chunk to half a second.\<close>

definition mic_browser :: browser where
  "mic_browser =
     silent_browser\<lparr>getUserMedia := Inr \<lparr>active = True\<rparr>,
                    newAudioContext := (\<lambda>rate. Inr \<lparr>sampleRate = rate, ctx_closed = False\<rparr>),
                    decodeAudioData := (\<lambda>d. Inr \<lparr>duration = 1/2\<rparr>)\<rparr>"

definition live_started :: live_state where
  "live_started = fst (startSession silent_vendor mic_browser live_init)"

definition audio_msg :: live_message where
  "audio_msg =
     \<lparr>serverContent =
        Some \<lparr>modelTurn = Some (Some [\<lparr>part_text = None,
                 inlineData = Some \<lparr>data = Some ''UklGRg=='', mimeType = Some ''audio/pcm''\<rparr>\<rparr>]),
              interrupted = False\<rparr>\<rparr>"

definition interrupt_msg :: live_message where
  "interrupt_msg = \<lparr>serverContent = Some \<lparr>modelTurn = None, interrupted = True\<rparr>\<rparr>"

text \<open>An interruption whose \<open>modelTurn\<close> has no \<open>parts\<close>.\<close>

definition bare_turn_interrupt_msg :: live_message where
  "bare_turn_interrupt_msg = \<lparr>serverContent = Some \<lparr>modelTurn = Some None, interrupted = True\<rparr>\<rparr>"

text \<open>The started session after one chunk was scheduled at time 1.\<close>

definition live_playing :: live_state where
  "live_playing = snd (onmessage mic_browser 1 audio_msg live_started)"

section \<open>Chatbot: the message list\<close>




lemma handleSend_resume_isLoading: "\<not> isLoading (handleSend_resume outcome st)"
  by (cases outcome) (simp_all add: handleSend_resume_def Let_def split: option.splits)










section \<open>Chatbot: one request at a time\<close>

lemma chat_step_one_in_flight: "one_in_flight w \<Longrightarrow> one_in_flight (chat_step e w)"
proof (cases w)
  case (Pair st pending)
  assume inv: "one_in_flight w"
  show ?thesis
  proof (cases e)
    case (Type t)
    with inv Pair show ?thesis by (auto simp: one_in_flight_def)
  next
    case Send
    show ?thesis
    proof (cases "handleSend_rejects st")
      case True
      with inv Pair Send show ?thesis by (simp add: one_in_flight_def)
    next
      case False
      then have "pending = []" using inv Pair
        by (auto simp: one_in_flight_def handleSend_rejects_def)
      with False Pair Send show ?thesis
        by (simp add: one_in_flight_def handleSend_begin_def split: option.splits)
    qed
  next
    case (Reply outcome)
    with inv Pair show ?thesis
      by (cases pending) (simp_all add: one_in_flight_def)
  qed
qed

lemma chat_run_one_in_flight: "one_in_flight w \<Longrightarrow> one_in_flight (chat_run es w)"
  by (induction es arbitrary: w) (simp_all add: chat_step_one_in_flight)

lemma handleSend_noop: "isLoading st \<or> chat st = None \<Longrightarrow> handleSend v st = (st, [])"
  by (auto simp: handleSend_def handleSend_rejects_def)

lemma handleSend_resume_input: "input (handleSend_resume outcome st) = input st"
  by (cases outcome) (simp_all add: handleSend_resume_def Let_def split: option.splits)

lemma handleSend_accepted:
  assumes "\<not> handleSend_rejects st"
  shows "\<exists>c. chat st = Some c \<and>
     handleSend v st =
       (handleSend_resume (sendMessageStream v c (input st)) (handleSend_begin st),
        [SendMessageStream c (input st)]) \<and>
     chat_run [Send, Reply (sendMessageStream v c (input st))] (st, []) =
       (fst (handleSend v st), [])"
proof -
  from assms obtain c where c: "chat st = Some c"
    by (auto simp: handleSend_rejects_def)
  with assms show ?thesis by (simp add: handleSend_def)
qed

text \<open>
  C10. While the view is loading or has no chat object, \<open>handleSend\<close> changes nothing
  and calls nothing. An accepted send makes exactly one request, with the text typed:
  \<open>handleSend\<close> is the part before the request (which appends the user message,
  empties the input field and sets the loading flag) followed by the handling of the
  answer; the state in which the request waits is loading and rejects a further send;
  and the state that \<open>handleSend\<close> leaves has an empty input field and is no longer
  loading. Over any run of events from a state with no request waiting, at most one
  request waits for its answer, and a send followed by its answer is \<open>handleSend\<close>.
\<close>

theorem handleSend_single_flight:
  "(isLoading st \<or> chat st = None \<longrightarrow> handleSend v st = (st, [])) \<and>
   (\<not> handleSend_rejects st \<longrightarrow>
      (\<exists>c. chat st = Some c \<and>
         handleSend v st =
           (handleSend_resume (sendMessageStream v c (input st))
              (st\<lparr>messages := messages st @ [\<lparr>role = User, content = input st\<rparr>],
                  input := [], isLoading := True\<rparr>),
            [SendMessageStream c (input st)]) \<and>
         chat_run [Send] (st, []) =
           (st\<lparr>messages := messages st @ [\<lparr>role = User, content = input st\<rparr>],
               input := [], isLoading := True\<rparr>,
            [SendMessageStream c (input st)]) \<and>
         chat_run [Send, Reply (sendMessageStream v c (input st))] (st, []) =
           (fst (handleSend v st), [])) \<and>
      input (fst (handleSend v st)) = [] \<and>
      \<not> isLoading (fst (handleSend v st)) \<and>
      handleSend v'
        (st\<lparr>messages := messages st @ [\<lparr>role = User, content = input st\<rparr>],
            input := [], isLoading := True\<rparr>) =
        (st\<lparr>messages := messages st @ [\<lparr>role = User, content = input st\<rparr>],
            input := [], isLoading := True\<rparr>, [])) \<and>
   length (snd (chat_run es (st, []))) \<le> 1"
proof (intro conjI impI)
  assume "isLoading st \<or> chat st = None"
  then show "handleSend v st = (st, [])" by (rule handleSend_noop)
next
  assume acc: "\<not> handleSend_rejects st"
  from handleSend_accepted [OF acc, of v] obtain c where c: "chat st = Some c"
    and eq: "handleSend v st =
       (handleSend_resume (sendMessageStream v c (input st)) (handleSend_begin st),
        [SendMessageStream c (input st)])"
    and run: "chat_run [Send, Reply (sendMessageStream v c (input st))] (st, []) =
       (fst (handleSend v st), [])"
    by blast
  have "chat_run [Send] (st, []) = (handleSend_begin st, [SendMessageStream c (input st)])"
    using acc c by simp
  with c eq run
  show "\<exists>c. chat st = Some c \<and>
         handleSend v st =
           (handleSend_resume (sendMessageStream v c (input st))
              (st\<lparr>messages := messages st @ [\<lparr>role = User, content = input st\<rparr>],
                  input := [], isLoading := True\<rparr>),
            [SendMessageStream c (input st)]) \<and>
         chat_run [Send] (st, []) =
           (st\<lparr>messages := messages st @ [\<lparr>role = User, content = input st\<rparr>],
               input := [], isLoading := True\<rparr>,
            [SendMessageStream c (input st)]) \<and>
         chat_run [Send, Reply (sendMessageStream v c (input st))] (st, []) =
           (fst (handleSend v st), [])"
    unfolding handleSend_begin_def by blast
  show "input (fst (handleSend v st)) = []"
    by (simp add: eq handleSend_resume_input handleSend_begin_def)
  show "\<not> isLoading (fst (handleSend v st))"
    by (simp add: eq handleSend_resume_isLoading)
next
  show "handleSend v'
        (st\<lparr>messages := messages st @ [\<lparr>role = User, content = input st\<rparr>],
            input := [], isLoading := True\<rparr>) =
        (st\<lparr>messages := messages st @ [\<lparr>role = User, content = input st\<rparr>],
            input := [], isLoading := True\<rparr>, [])"
    by (rule handleSend_noop) simp
next
  have "one_in_flight (st, [])" by (simp add: one_in_flight_def)
  then have "one_in_flight (chat_run es (st, []))" by (rule chat_run_one_in_flight)
  then show "length (snd (chat_run es (st, []))) \<le> 1" by (simp add: one_in_flight_def)
qed

theorem handleSend_single_flight_witness:
  "isLoading (handleSend_begin chat_ready) \<and>
   handleSend silent_vendor (handleSend_begin chat_ready) = (handleSend_begin chat_ready, []) \<and>
   chat chatbot_init = None \<and>
   handleSend silent_vendor chatbot_init = (chatbot_init, []) \<and>
   \<not> handleSend_rejects chat_ready \<and>
   input chat_ready = ''hi'' \<and>
   handleSend (stream_vendor (Inr hello_stream)) chat_ready =
     (chat_ready\<lparr>messages := [\<lparr>role = User, content = ''hi''\<rparr>,
                               \<lparr>role = Model, content = ''Hello''\<rparr>],
                 input := [], isLoading := False\<rparr>,
      [SendMessageStream hareram_chat ''hi'']) \<and>
   input (fst (handleSend (stream_vendor (Inr hello_stream)) chat_ready)) = [] \<and>
   length (snd (chat_run [Send, Send, Type ''x'', Reply (Inr hello_stream), Send]
                  (chat_ready, []))) \<le> 1"
proof -
  have ready: "\<not> handleSend_rejects chat_ready" "input chat_ready = ''hi''"
    "chat chat_ready = Some hareram_chat" "messages chat_ready = []"
    by (simp_all add: chat_ready_def chatbot_mount_def chatbot_init_def hareram_chat_def
        handleSend_rejects_def trim_def isWhiteSpace_def)
  have loading: "isLoading (handleSend_begin chat_ready)"
    by (simp add: handleSend_begin_def)
  have none: "chat chatbot_init = None" by (simp add: chatbot_init_def)
  have answer: "sendMessageStream (stream_vendor (Inr hello_stream)) hareram_chat ''hi'' =
      Inr hello_stream"
    by (simp add: stream_vendor_def silent_vendor_def)
  have resumed: "handleSend_resume (Inr hello_stream)
      (chat_ready\<lparr>messages := messages chat_ready @ [\<lparr>role = User, content = ''hi''\<rparr>],
                  input := [], isLoading := True\<rparr>) =
      chat_ready\<lparr>messages := [\<lparr>role = User, content = ''hi''\<rparr>,
                               \<lparr>role = Model, content = ''Hello''\<rparr>],
                 input := [], isLoading := False\<rparr>"
    by (simp add: handleSend_resume_def hello_stream_def ready)
  from handleSend_single_flight [of "handleSend_begin chat_ready" silent_vendor silent_vendor "[]"]
    loading
  have w1: "handleSend silent_vendor (handleSend_begin chat_ready) = (handleSend_begin chat_ready, [])"
    by blast
  from handleSend_single_flight [of chatbot_init silent_vendor silent_vendor "[]"] none
  have w2: "handleSend silent_vendor chatbot_init = (chatbot_init, [])"
    by blast
  from handleSend_single_flight [of chat_ready "stream_vendor (Inr hello_stream)" silent_vendor
      "[Send, Send, Type ''x'', Reply (Inr hello_stream), Send]"] ready(1)
  have w3: "(\<exists>c. chat chat_ready = Some c \<and>
         handleSend (stream_vendor (Inr hello_stream)) chat_ready =
           (handleSend_resume (sendMessageStream (stream_vendor (Inr hello_stream)) c (input chat_ready))
              (chat_ready\<lparr>messages := messages chat_ready @ [\<lparr>role = User, content = input chat_ready\<rparr>],
                  input := [], isLoading := True\<rparr>),
            [SendMessageStream c (input chat_ready)]))"
    and w4: "input (fst (handleSend (stream_vendor (Inr hello_stream)) chat_ready)) = []"
    and w5: "length (snd (chat_run [Send, Send, Type ''x'', Reply (Inr hello_stream), Send]
                  (chat_ready, []))) \<le> 1"
    by blast+
  from w3 ready(3) have "handleSend (stream_vendor (Inr hello_stream)) chat_ready =
      (handleSend_resume (sendMessageStream (stream_vendor (Inr hello_stream)) hareram_chat (input chat_ready))
          (chat_ready\<lparr>messages := messages chat_ready @ [\<lparr>role = User, content = input chat_ready\<rparr>],
              input := [], isLoading := True\<rparr>),
       [SendMessageStream hareram_chat (input chat_ready)])"
    by auto
  then have w6: "handleSend (stream_vendor (Inr hello_stream)) chat_ready =
     (chat_ready\<lparr>messages := [\<lparr>role = User, content = ''hi''\<rparr>,
                               \<lparr>role = Model, content = ''Hello''\<rparr>],
                 input := [], isLoading := False\<rparr>,
      [SendMessageStream hareram_chat ''hi''])"
    by (simp only: ready(2) answer resumed)
  from loading w1 none w2 ready(1,2) w6 w4 w5 show ?thesis by blast
qed

section \<open>Blank prompts\<close>

text \<open>
  C5. When the trimmed prompt is empty, the submit handlers of the text, image
  generation, image edit, image analysis and speech views return the state they were
  given, loading and error fields included, and make no vendor call.
\<close>

theorem blank_prompt_no_call:
  "(trim (tg_prompt s1) = [] \<longrightarrow> text_handleSubmit v s1 = (s1, [])) \<and>
   (trim (ig_prompt s2) = [] \<longrightarrow> image_handleSubmit v s2 = (s2, [])) \<and>
   (trim (ie_prompt s3) = [] \<longrightarrow> edit_handleSubmit v b s3 = (s3, [])) \<and>
   (trim (ia_prompt s4) = [] \<longrightarrow> analyze_handleSubmit v b s4 = (s4, [])) \<and>
   (trim (tts_text s5) = [] \<longrightarrow> handleSpeak v b s5 = (s5, []))"
  by (simp add: text_handleSubmit_def image_handleSubmit_def edit_handleSubmit_def
      analyze_handleSubmit_def handleSpeak_def)

theorem blank_prompt_no_call_witness:
  "trim (tg_prompt blank_text) = [] \<and>
   text_handleSubmit (reply_vendor (Inr text_only_response)) blank_text = (blank_text, []) \<and>
   trim (ig_prompt blank_image) = [] \<and>
   image_handleSubmit (reply_vendor (Inr text_only_response)) blank_image = (blank_image, []) \<and>
   trim (ie_prompt blank_edit) = [] \<and>
   edit_handleSubmit (reply_vendor (Inr text_only_response)) silent_browser blank_edit = (blank_edit, []) \<and>
   trim (ia_prompt blank_analyze) = [] \<and>
   analyze_handleSubmit (reply_vendor (Inr text_only_response)) silent_browser blank_analyze =
     (blank_analyze, []) \<and>
   trim (tts_text blank_speech) = [] \<and>
   handleSpeak (reply_vendor (Inr text_only_response)) silent_browser blank_speech = (blank_speech, [])"
  using blank_prompt_no_call [of blank_text "reply_vendor (Inr text_only_response)" blank_image
      blank_edit silent_browser blank_analyze blank_speech]
  by (simp add: blank_text_def text_init_def blank_image_def blank_edit_def blank_analyze_def
      blank_speech_def trim_def isWhiteSpace_def)

section \<open>Location grounding\<close>

lemma text_handleSubmit_coords:
  "trim (tg_prompt st) \<noteq> [] \<Longrightarrow>
     map call_coords (snd (text_handleSubmit v st)) =
       [if useMaps st
        then map_option (\<lambda>pos. \<lparr>latitude = coords_latitude pos,
                                 longitude = coords_longitude pos\<rparr>) (position st)
        else None]"
  by (simp add: text_handleSubmit_def generateText_def generateText_request_def Let_def
      plain_config_def split: option.splits prod.splits)

text \<open>
  C6. From a state with the Maps option off and no position yet, switching the option
  on makes the effect ask for the position. When the platform answers with a position,
  the next request (with any non-blank prompt) carries that latitude and longitude in
  its \<open>toolConfig\<close>. When it answers with a denial, the error message is set, no
  position is stored, and the next request carries no coordinates; nor does any
  request made while no position is stored, and a request stores none.
\<close>

theorem maps_coordinates_attached:
  "\<not> useMaps st \<Longrightarrow> position st = None \<Longrightarrow> trim p \<noteq> [] \<Longrightarrow>
     snd (setUseMaps True st) \<and>
     map call_coords
       (snd (text_handleSubmit v ((onPosition pos (fst (setUseMaps True st)))\<lparr>tg_prompt := p\<rparr>))) =
       [Some \<lparr>latitude = coords_latitude pos, longitude = coords_longitude pos\<rparr>] \<and>
     tg_error (onPositionError (fst (setUseMaps True st))) =
       ''Could not get location for Maps. Please grant permission.'' \<and>
     position (onPositionError (fst (setUseMaps True st))) = None \<and>
     map call_coords
       (snd (text_handleSubmit v ((onPositionError (fst (setUseMaps True st)))\<lparr>tg_prompt := p\<rparr>))) =
       [None] \<and>
     (\<forall>st'. position st' = None \<longrightarrow>
        position (fst (text_handleSubmit v st')) = None \<and>
        list_all (\<lambda>c. call_coords c = None) (snd (text_handleSubmit v st')))"
proof -
  assume a: "\<not> useMaps st" "position st = None" "trim p \<noteq> []"
  have later: "position st' = None \<longrightarrow>
        position (fst (text_handleSubmit v st')) = None \<and>
        list_all (\<lambda>c. call_coords c = None) (snd (text_handleSubmit v st'))" for st'
    by (simp add: text_handleSubmit_def generateText_def generateText_request_def Let_def
        plain_config_def split: sum.splits)
  show ?thesis using a later
    by (simp add: text_handleSubmit_coords setUseMaps_def positionEffect_asks_def onPosition_def
        onPositionError_def)
qed

theorem maps_coordinates_attached_witness:
  "\<not> useMaps text_init \<and> position text_init = None \<and> trim ''cafes near me'' \<noteq> [] \<and>
   snd (setUseMaps True text_init) \<and>
   map call_coords
     (snd (text_handleSubmit silent_vendor
        ((onPosition berlin (fst (setUseMaps True text_init)))\<lparr>tg_prompt := ''cafes near me''\<rparr>))) =
     [Some \<lparr>latitude = 52.5, longitude = 13.25\<rparr>] \<and>
   tg_error (onPositionError (fst (setUseMaps True text_init))) =
     ''Could not get location for Maps. Please grant permission.'' \<and>
   map call_coords
     (snd (text_handleSubmit silent_vendor
        ((onPositionError (fst (setUseMaps True text_init)))\<lparr>tg_prompt := ''cafes near me''\<rparr>))) =
     [None]"
  using maps_coordinates_attached [of text_init "''cafes near me''" silent_vendor berlin]
  by (simp add: text_init_def berlin_def trim_def isWhiteSpace_def)

section \<open>Missing payloads\<close>

lemma firstInlineImage_none:
  "list_all (\<lambda>p. inlineData p = None) ps \<Longrightarrow>
     firstInlineImage ps = Inl (Error ''No image generated'')"
  by (induction ps) simp_all

lemma editImage_parts_no_inline:
  "no_inline_data response \<Longrightarrow> editImage_parts response = Inr ps \<Longrightarrow>
     list_all (\<lambda>p. inlineData p = None) ps"
  by (auto simp: no_inline_data_def editImage_parts_def split: option.splits list.splits)

lemma speech_no_payload:
  "no_inline_payload response \<Longrightarrow>
     speech_base64Audio response = None \<or> speech_base64Audio response = Some []"
  by (auto simp: no_inline_payload_def no_payload_def speech_base64Audio_def
      split: option.splits list.splits)

text \<open>
  What holds of each adapter on its own. \<open>editImage\<close> throws when the vendor's answer
  has no part with an \<open>inlineData\<close> object; the error is \<open>No image generated\<close>
  whenever the answer has a first candidate with parts.
\<close>

lemma editImage_throws_without_inlineData:
  assumes "generateContent v (editImage_request prompt img mime) = Inr response"
    and "no_inline_data response"
  shows "(\<exists>e. snd (editImage v prompt img mime) = Inl e) \<and>
     (\<forall>ps. editImage_parts response = Inr ps \<longrightarrow>
        snd (editImage v prompt img mime) = Inl (Error ''No image generated''))"
proof (cases "editImage_parts response")
  case (Inl e)
  with assms(1) show ?thesis by (simp add: editImage_def)
next
  case (Inr ps)
  with assms(1) show ?thesis
    using firstInlineImage_none [OF editImage_parts_no_inline [OF assms(2) Inr]]
    by (simp add: editImage_def)
qed

text \<open>
  \<open>generateSpeech\<close> throws when the vendor's answer contains no inline data, with or
  without an \<open>inlineData\<close> object.
\<close>

lemma generateSpeech_throws_without_payload:
  assumes "generateContent v (generateSpeech_request txt) = Inr response"
    and "no_inline_payload response"
  shows "snd (generateSpeech v txt) = Inl (Error ''No audio data returned from API'')"
  using assms(1) speech_no_payload [OF assms(2)]
  by (auto simp: generateSpeech_def)

text \<open>
  C8 at a response whose only part has an \<open>inlineData\<close> object without \<open>data\<close>, so
  that no part contains inline image data: \<open>editImage\<close> tests the object only and
  returns a data URI made from \<open>undefined\<close> instead of throwing, where
  \<open>generateSpeech\<close> tests the data and throws on the same response.
\<close>

theorem editImage_returns_without_image_data:
  "no_inline_payload dataless_response \<and>
   snd (editImage (reply_vendor (Inr dataless_response)) ''add a hat'' ''AAAA'' ''image/png'') =
     Inr ''data:image/png;base64,undefined'' \<and>
   snd (generateSpeech (reply_vendor (Inr dataless_response)) ''hello'') =
     Inl (Error ''No audio data returned from API'')"
  by (simp add: no_inline_payload_def no_payload_def dataless_response_def reply_vendor_def
      silent_vendor_def editImage_def editImage_parts_def generateSpeech_def
      speech_base64Audio_def)

section \<open>Video: polling the operation\<close>

lemma pollLoop_done:
  "operationRef st = Some operation \<Longrightarrow> handle_after v (length calls) operation k = Inr opk \<Longrightarrow>
   op_done opk \<Longrightarrow>
     \<exists>calls' st'. pollLoop v calls st = Some (False, calls', st') \<and>
       length calls' \<le> length calls + k \<and> operationRef st' = Some opk \<and>
       vg_error st' = vg_error st \<and> vg_isLoading st' = vg_isLoading st \<and>
       apiKeySelected st' = apiKeySelected st \<and> videoUrl st' = videoUrl st"
proof (induction k arbitrary: st operation calls)
  case 0
  then show ?case by (subst pollLoop.simps) simp
next
  case (Suc k)
  show ?case
  proof (cases "op_done operation")
    case True
    with Suc.prems show ?thesis by (subst pollLoop.simps) simp
  next
    case False
    with Suc.prems obtain op' where
      get: "getVideosOperation v (length calls) operation = Inr op'"
      and rest: "handle_after v (Suc (length calls)) op' k = Inr opk"
      by (auto split: sum.splits)
    let ?st = "st\<lparr>loadingMessage := ''Processing video... this can take a few minutes.'',
                    operationRef := Some op'\<rparr>"
    let ?calls = "calls @ [GetVideosOperation operation]"
    have "\<exists>calls' st'. pollLoop v ?calls ?st = Some (False, calls', st') \<and>
       length calls' \<le> length ?calls + k \<and> operationRef st' = Some opk \<and>
       vg_error st' = vg_error ?st \<and> vg_isLoading st' = vg_isLoading ?st \<and>
       apiKeySelected st' = apiKeySelected ?st \<and> videoUrl st' = videoUrl ?st"
      by (rule Suc.IH) (use rest Suc.prems(3) in simp_all)
    moreover have "pollLoop v calls st = pollLoop v ?calls ?st"
      using False Suc.prems(1) get by (subst pollLoop.simps) (simp add: checkVideoOperation_def)
    ultimately show ?thesis by auto
  qed
qed

lemma pollLoop_failed:
  "operationRef st = Some operation \<Longrightarrow> handle_after v (length calls) operation k = Inl e \<Longrightarrow>
     \<exists>calls' st'. pollLoop v calls st = Some (True, calls', st') \<and>
       length calls' \<le> length calls + k \<and>
       vg_error st' = ''Failed to check video status. The API key might be invalid.'' \<and>
       \<not> vg_isLoading st' \<and> \<not> apiKeySelected st'"
proof (induction k arbitrary: st operation calls)
  case 0
  then show ?case by simp
next
  case (Suc k)
  from Suc.prems have nd: "\<not> op_done operation" by (auto split: if_splits)
  show ?case
  proof (cases "getVideosOperation v (length calls) operation")
    case (Inl e')
    with nd Suc.prems(1) show ?thesis
      by (subst pollLoop.simps) (simp add: checkVideoOperation_def)
  next
    case (Inr op')
    let ?st = "st\<lparr>loadingMessage := ''Processing video... this can take a few minutes.'',
                    operationRef := Some op'\<rparr>"
    let ?calls = "calls @ [GetVideosOperation operation]"
    from Inr nd Suc.prems have rest: "handle_after v (Suc (length calls)) op' k = Inl e" by simp
    have "\<exists>calls' st'. pollLoop v ?calls ?st = Some (True, calls', st') \<and>
       length calls' \<le> length ?calls + k \<and>
       vg_error st' = ''Failed to check video status. The API key might be invalid.'' \<and>
       \<not> vg_isLoading st' \<and> \<not> apiKeySelected st'"
      by (rule Suc.IH) (use rest in simp_all)
    moreover have "pollLoop v calls st = pollLoop v ?calls ?st"
      using nd Suc.prems(1) Inr by (subst pollLoop.simps) (simp add: checkVideoOperation_def)
    ultimately show ?thesis by auto
  qed
qed

lemma never_done_step:
  assumes "never_done v n operation"
  shows "\<not> op_done operation \<and>
     (\<exists>op'. getVideosOperation v n operation = Inr op' \<and> never_done v (Suc n) op')"
proof -
  from assms have "\<exists>opk. handle_after v n operation 0 = Inr opk \<and> \<not> op_done opk"
    unfolding never_done_def by blast
  then have nd: "\<not> op_done operation" by simp
  from assms have "\<exists>opk. handle_after v n operation (Suc 0) = Inr opk \<and> \<not> op_done opk"
    unfolding never_done_def by blast
  with nd obtain op' where get: "getVideosOperation v n operation = Inr op'"
    by (auto split: sum.splits)
  have "never_done v (Suc n) op'"
    unfolding never_done_def
  proof
    fix k
    from assms have "\<exists>opk. handle_after v n operation (Suc k) = Inr opk \<and> \<not> op_done opk"
      unfolding never_done_def by blast
    with nd get show "\<exists>opk. handle_after v (Suc n) op' k = Inr opk \<and> \<not> op_done opk" by simp
  qed
  with nd get show ?thesis by blast
qed

lemma pollLoop_forever_aux:
  assumes "pollLoop v calls st = Some y"
  shows "\<not> (\<exists>operation. operationRef st = Some operation \<and> never_done v (length calls) operation)"
proof (rule pollLoop.raw_induct
    [where P = "\<lambda>v calls st y. \<not> (\<exists>operation. operationRef st = Some operation \<and>
                   never_done v (length calls) operation)", OF _ assms])
  fix f :: "vendor \<Rightarrow> vendor_call list \<Rightarrow> video_state \<Rightarrow> (bool \<times> vendor_call list \<times> video_state) option"
  fix v calls st y
  assume IH: "\<And>v calls st y. f v calls st = Some y \<Longrightarrow>
      \<not> (\<exists>operation. operationRef st = Some operation \<and> never_done v (length calls) operation)"
  assume body: "(case operationRef st of
        None \<Rightarrow> Some (False, calls, st)
      | Some operation \<Rightarrow>
          if op_done operation then Some (False, calls, st)
          else
            (case snd (checkVideoOperation v (length calls) operation) of
               Inl e \<Rightarrow>
                 Some (True, calls @ fst (checkVideoOperation v (length calls) operation),
                       st\<lparr>loadingMessage := ''Processing video... this can take a few minutes.'',
                          vg_error := ''Failed to check video status. The API key might be invalid.'',
                          vg_isLoading := False,
                          apiKeySelected := False\<rparr>)
             | Inr operation' \<Rightarrow>
                 f v (calls @ fst (checkVideoOperation v (length calls) operation))
                   (st\<lparr>loadingMessage := ''Processing video... this can take a few minutes.'',
                      operationRef := Some operation'\<rparr>))) = Some y"
  show "\<not> (\<exists>operation. operationRef st = Some operation \<and> never_done v (length calls) operation)"
  proof
    assume "\<exists>operation. operationRef st = Some operation \<and> never_done v (length calls) operation"
    then obtain operation where ref: "operationRef st = Some operation"
      and nd: "never_done v (length calls) operation" by blast
    from never_done_step [OF nd] obtain op' where
      notdone: "\<not> op_done operation"
      and get: "getVideosOperation v (length calls) operation = Inr op'"
      and nd': "never_done v (Suc (length calls)) op'" by blast
    let ?st = "st\<lparr>loadingMessage := ''Processing video... this can take a few minutes.'',
                    operationRef := Some op'\<rparr>"
    from body ref notdone get
    have "f v (calls @ [GetVideosOperation operation]) ?st = Some y"
      by (simp add: checkVideoOperation_def)
    from IH [OF this] nd' show False by simp
  qed
qed

lemma pollLoop_forever:
  "operationRef st = Some operation \<Longrightarrow> never_done v (length calls) operation \<Longrightarrow>
     pollLoop v calls st = None"
  using pollLoop_forever_aux [of v calls st] by (cases "pollLoop v calls st") auto


lemma pollOperation_finish_no_video:
  "operationRef st = Some operation \<Longrightarrow> op_done operation \<Longrightarrow>
   firstVideoUri operation = None \<or> firstVideoUri operation = Some [] \<Longrightarrow>
     pollOperation_finish b st =
       (None, st\<lparr>vg_error := ''Video generation completed, but no video was returned.'',
                 vg_isLoading := False\<rparr>)"
  by (auto simp: pollOperation_finish_def)

lemma pollOperation_done:
  assumes "handle_after v 0 op0 k = Inr opk" and "op_done opk"
  shows "\<exists>thrown calls st'. pollOperation v b op0 st = Some (thrown, calls, st') \<and>
      length calls \<le> k \<and>
      (firstVideoUri opk = None \<or> firstVideoUri opk = Some [] \<longrightarrow>
         thrown = None \<and>
         vg_error st' = ''Video generation completed, but no video was returned.'' \<and>
         \<not> vg_isLoading st')"
proof -
  obtain calls st1 where loop: "pollLoop v [] (st\<lparr>operationRef := Some op0\<rparr>) = Some (False, calls, st1)"
    and len: "length calls \<le> k" and ref: "operationRef st1 = Some opk"
    using pollLoop_done [of "st\<lparr>operationRef := Some op0\<rparr>" op0 v "[]" k opk] assms by auto
  have "firstVideoUri opk = None \<or> firstVideoUri opk = Some [] \<Longrightarrow>
      pollOperation_finish b st1 =
       (None, st1\<lparr>vg_error := ''Video generation completed, but no video was returned.'',
                 vg_isLoading := False\<rparr>)"
    using pollOperation_finish_no_video [OF ref assms(2)] by simp
  then show ?thesis using loop len by (auto simp: pollOperation_def)
qed

lemma pollOperation_failed:
  assumes "handle_after v 0 op0 k = Inl e"
  shows "\<exists>calls st'. pollOperation v b op0 st = Some (None, calls, st') \<and> length calls \<le> k \<and>
      vg_error st' = ''Failed to check video status. The API key might be invalid.'' \<and>
      \<not> vg_isLoading st' \<and> \<not> apiKeySelected st'"
  using pollLoop_failed [of "st\<lparr>operationRef := Some op0\<rparr>" op0 v "[]" k e] assms
  by (auto simp: pollOperation_def)

lemma pollOperation_forever: "never_done v 0 op0 \<Longrightarrow> pollOperation v b op0 st = None"
  using pollLoop_forever [of "st\<lparr>operationRef := Some op0\<rparr>" op0 v "[]"]
  by (simp add: pollOperation_def)

lemma pending_handle_after: "handle_after pending_vendor n pending_op k = Inr pending_op"
  by (induction k arbitrary: n) (simp_all add: pending_vendor_def silent_vendor_def pending_op_def)

lemma pending_never_done: "never_done pending_vendor 0 pending_op"
  unfolding never_done_def using pending_handle_after by (simp add: pending_op_def)

text \<open>
  C1, as the code has it. Once the handle reports completion at the \<open>k\<close>-th refresh
  or before, \<open>pollOperation\<close> returns after at most \<open>k\<close> refreshes, and when the
  completed handle has no media locator it sets the error message and clears the
  loading flag. Once a refresh fails, it returns after at most \<open>k\<close> refreshes in the
  failed state. When the handle never reports completion and no refresh fails, it
  never returns.
\<close>

theorem pollOperation_outcomes:
  "(handle_after v 0 op0 k = Inr opk \<and> op_done opk \<longrightarrow>
      (\<exists>thrown calls st'. pollOperation v b op0 st = Some (thrown, calls, st') \<and>
         length calls \<le> k \<and>
         (firstVideoUri opk = None \<or> firstVideoUri opk = Some [] \<longrightarrow>
            thrown = None \<and>
            vg_error st' = ''Video generation completed, but no video was returned.'' \<and>
            \<not> vg_isLoading st'))) \<and>
   (handle_after v 0 op0 k = Inl e \<longrightarrow>
      (\<exists>calls st'. pollOperation v b op0 st = Some (None, calls, st') \<and> length calls \<le> k \<and>
         vg_error st' = ''Failed to check video status. The API key might be invalid.'' \<and>
         \<not> vg_isLoading st' \<and> \<not> apiKeySelected st')) \<and>
   (never_done v 0 op0 \<longrightarrow> pollOperation v b op0 st = None)"
  using pollOperation_done [of v op0 k opk b st] pollOperation_failed [of v op0 k e b st]
    pollOperation_forever [of v op0 b st]
  by blast

text \<open>
  C1 as stated fails: with a handle that stays pending and a refresh that never fails,
  \<open>pollOperation\<close> does not return, so it reaches no error state.
\<close>

theorem pollOperation_never_done_counterexample: "pollOperation pending_vendor silent_browser pending_op video_ready = None"
  using pending_never_done by (rule pollOperation_forever)

lemma slow_handle: "handle_after slow_vendor 0 pending_op 3 = Inr empty_done_op"
  by (simp add: slow_vendor_def silent_vendor_def pending_op_def empty_done_op_def numeral_3_eq_3)

lemma flaky_handle: "handle_after flaky_vendor 0 pending_op 2 = Inl (Error ''503'')"
  by (simp add: flaky_vendor_def silent_vendor_def pending_op_def numeral_2_eq_2)

theorem pollOperation_outcomes_witness:
  "handle_after slow_vendor 0 pending_op 3 = Inr empty_done_op \<and> op_done empty_done_op \<and>
   firstVideoUri empty_done_op = None \<and>
   (\<exists>thrown calls st'. pollOperation slow_vendor silent_browser pending_op video_ready = Some (thrown, calls, st') \<and>
         length calls \<le> 3 \<and> thrown = None \<and>
            vg_error st' = ''Video generation completed, but no video was returned.'' \<and>
            \<not> vg_isLoading st') \<and>
   handle_after flaky_vendor 0 pending_op 2 = Inl (Error ''503'') \<and>
   (\<exists>calls st'. pollOperation flaky_vendor silent_browser pending_op video_ready = Some (None, calls, st') \<and> length calls \<le> 2 \<and>
         vg_error st' = ''Failed to check video status. The API key might be invalid.'' \<and>
         \<not> vg_isLoading st' \<and> \<not> apiKeySelected st') \<and>
   never_done pending_vendor 0 pending_op \<and>
   pollOperation pending_vendor silent_browser pending_op video_ready = None"
  using pollOperation_outcomes [of slow_vendor pending_op 3 empty_done_op silent_browser video_ready "Error ''503''"]
    pollOperation_outcomes [of flaky_vendor pending_op 2 empty_done_op silent_browser video_ready "Error ''503''"]
    pollOperation_outcomes [of pending_vendor pending_op 0 empty_done_op silent_browser video_ready "Error ''503''"]
    slow_handle flaky_handle pending_never_done
  by (simp add: empty_done_op_def firstVideoUri_def)


lemma video_catch_message:
  "vg_error (video_catch e st) =
     (if auth_error e then ''API Key error. Please select your API key again.''
      else ''Failed to start video generation.'') \<and>
   \<not> vg_isLoading (video_catch e st) \<and>
   (auth_error e \<longrightarrow> \<not> apiKeySelected (video_catch e st))"
  by (simp add: video_catch_def)

lemma video_submit_rejected:
  assumes "trim (vg_prompt st) \<noteq> []" and "vg_imageFile st = Some imageFile"
    and "fileToBase64 b imageFile = Inr base64"
    and "generateVideos v (generateVideo_request (vg_prompt st) base64 (file_type imageFile) (vg_aspectRatio st)) = Inl e"
  shows "\<exists>st' calls. video_handleSubmit v b st = Some (st', calls) \<and>
      vg_error st' = (if auth_error e then ''API Key error. Please select your API key again.''
                      else ''Failed to start video generation.'') \<and>
      \<not> vg_isLoading st' \<and> (auth_error e \<longrightarrow> \<not> apiKeySelected st')"
  using assms video_catch_message [of e]
  by (simp add: video_handleSubmit_def generateVideo_def Let_def)

lemma video_submit_poll_failed:
  assumes "trim (vg_prompt st) \<noteq> []" and "vg_imageFile st = Some imageFile"
    and "fileToBase64 b imageFile = Inr base64"
    and "generateVideos v (generateVideo_request (vg_prompt st) base64 (file_type imageFile) (vg_aspectRatio st)) = Inr op0"
    and "handle_after v 0 op0 k = Inl e"
  shows "\<exists>st' calls. video_handleSubmit v b st = Some (st', calls) \<and>
      vg_error st' = ''Failed to check video status. The API key might be invalid.'' \<and>
      \<not> vg_isLoading st' \<and> \<not> apiKeySelected st'"
proof -
  let ?st1 = "st\<lparr>vg_isLoading := True, videoUrl := [], vg_error := [],
                 loadingMessage := ''Starting video generation...''\<rparr>"
  obtain calls st' where poll: "pollOperation v b op0 ?st1 = Some (None, calls, st')"
    and post: "vg_error st' = ''Failed to check video status. The API key might be invalid.''"
      "\<not> vg_isLoading st'" "\<not> apiKeySelected st'"
    using pollOperation_failed [OF assms(5), of b ?st1] by blast
  show ?thesis using assms(1-4) poll post
    by (simp add: video_handleSubmit_def generateVideo_def Let_def)
qed

text \<open>
  C7. For a submission with a prompt and an image: when the vendor rejects the
  generation request, \<open>handleSubmit\<close> returns with a fixed message and a cleared
  loading flag, and when the error is the invalid-entity one it also clears
  \<open>apiKeySelected\<close>; when a refresh of the operation fails while polling, it
  returns with the fixed status message, a cleared loading flag and
  \<open>apiKeySelected\<close> cleared.
\<close>

theorem video_failures_caught:
  "trim (vg_prompt st) \<noteq> [] \<Longrightarrow> vg_imageFile st = Some imageFile \<Longrightarrow>
   fileToBase64 b imageFile = Inr base64 \<Longrightarrow>
     (generateVideos v (generateVideo_request (vg_prompt st) base64 (file_type imageFile) (vg_aspectRatio st)) = Inl e \<longrightarrow>
        (\<exists>st' calls. video_handleSubmit v b st = Some (st', calls) \<and>
           vg_error st' = (if auth_error e then ''API Key error. Please select your API key again.''
                           else ''Failed to start video generation.'') \<and>
           \<not> vg_isLoading st' \<and> (auth_error e \<longrightarrow> \<not> apiKeySelected st'))) \<and>
     (generateVideos v (generateVideo_request (vg_prompt st) base64 (file_type imageFile) (vg_aspectRatio st)) = Inr op0 \<and>
      handle_after v 0 op0 k = Inl e \<longrightarrow>
        (\<exists>st' calls. video_handleSubmit v b st = Some (st', calls) \<and>
           vg_error st' = ''Failed to check video status. The API key might be invalid.'' \<and>
           \<not> vg_isLoading st' \<and> \<not> apiKeySelected st'))"
  using video_submit_rejected [of st imageFile b base64 v e]
    video_submit_poll_failed [of st imageFile b base64 v op0 k e]
  by blast

lemma auth_404: "auth_error (Error ''404: Requested entity was not found.'')"
  by (simp add: auth_error_def)

theorem video_failures_caught_witness:
  "trim (vg_prompt video_ready) \<noteq> [] \<and>
   vg_imageFile video_ready = Some \<lparr>file_name = ''a.png'', file_type = ''image/png''\<rparr> \<and>
   fileToBase64 reading_browser \<lparr>file_name = ''a.png'', file_type = ''image/png''\<rparr> = Inr ''AAAA'' \<and>
   generateVideos rejecting_vendor (generateVideo_request ''a cat'' ''AAAA'' ''image/png'' ''16:9'') =
     Inl (Error ''404: Requested entity was not found.'') \<and>
   auth_error (Error ''404: Requested entity was not found.'') \<and>
   (\<exists>st' calls. video_handleSubmit rejecting_vendor reading_browser video_ready = Some (st', calls) \<and>
      vg_error st' = ''API Key error. Please select your API key again.'' \<and>
      \<not> vg_isLoading st' \<and> \<not> apiKeySelected st') \<and>
   generateVideos flaky_vendor (generateVideo_request ''a cat'' ''AAAA'' ''image/png'' ''16:9'') =
     Inr pending_op \<and>
   handle_after flaky_vendor 0 pending_op 2 = Inl (Error ''503'') \<and>
   (\<exists>st' calls. video_handleSubmit flaky_vendor reading_browser video_ready = Some (st', calls) \<and>
      vg_error st' = ''Failed to check video status. The API key might be invalid.'' \<and>
      \<not> vg_isLoading st' \<and> \<not> apiKeySelected st')"
  using video_failures_caught [of video_ready "\<lparr>file_name = ''a.png'', file_type = ''image/png''\<rparr>" reading_browser
      "''AAAA''" rejecting_vendor "Error ''404: Requested entity was not found.''" pending_op 0]
    video_failures_caught [of video_ready "\<lparr>file_name = ''a.png'', file_type = ''image/png''\<rparr>" reading_browser
      "''AAAA''" flaky_vendor "Error ''503''" pending_op 2]
    flaky_handle auth_404
  by (simp add: video_ready_def reading_browser_def silent_browser_def rejecting_vendor_def
      flaky_vendor_def silent_vendor_def trim_def isWhiteSpace_def)


section \<open>Live session: the playback queue\<close>

lemma live_started_eq:
  "live_started =
     \<lparr>isSessionActive = True, status = ''Connecting...'', sessionPromiseRef = Some 0,
      audioContextRef = Some \<lparr>sampleRate = 16000, ctx_closed = False\<rparr>,
      scriptProcessorRef = None, mediaStreamSourceRef = None,
      outputAudioContextRef = Some \<lparr>sampleRate = 24000, ctx_closed = False\<rparr>,
      nextStartTimeRef = 0, audioQueueRef = {}, stream = Some \<lparr>active = True\<rparr>,
      sources = [], connections = 1, closeRequests = []\<rparr>"
  by (simp add: live_started_def startSession_def Let_def mic_browser_def silent_browser_def
      silent_vendor_def connectLive_def live_init_def)

lemma live_playing_eq:
  "live_playing =
     live_started\<lparr>sources := [\<lparr>src_id = 0, buffer = \<lparr>duration = 1/2\<rparr>, startTime = 1, stopped = False\<rparr>],
                  nextStartTimeRef := 3/2, audioQueueRef := {0}\<rparr>"
  by (simp add: live_playing_def onmessage_def base64Audio_def audio_msg_def scheduleChunk_def
      Let_def mic_browser_def silent_browser_def msg_interrupted_def live_started_eq)

lemma stopSources_ids [simp]: "map src_id (stopSources q xs) = map src_id xs"
  by (simp add: stopSources_def)

lemma stopSources_length [simp]: "length (stopSources q xs) = length xs"
  by (simp add: stopSources_def)

lemma queued_raise [simp]: "queued (st\<lparr>nextStartTimeRef := c\<rparr>) = queued st"
  by (simp add: queued_def)

lemma no_overlap_raise:
  "no_overlap st \<Longrightarrow> nextStartTimeRef st \<le> c \<Longrightarrow> no_overlap (st\<lparr>nextStartTimeRef := c\<rparr>)"
  by (fastforce simp: no_overlap_def)

lemma queued_append:
  assumes "\<forall>s\<in>set (sources st). src_id s < length (sources st)"
    and "src_id new = length (sources st)"
  shows "queued (st\<lparr>sources := sources st @ [new], nextStartTimeRef := c,
                     audioQueueRef := insert (length (sources st)) (audioQueueRef st)\<rparr>) =
         queued st @ [new]"
proof -
  have "filter (\<lambda>s. src_id s \<in> insert (length (sources st)) (audioQueueRef st)) (sources st) =
        filter (\<lambda>s. src_id s \<in> audioQueueRef st) (sources st)"
    using assms by (intro filter_cong) auto
  then show ?thesis using assms(2) by (simp add: queued_def)
qed

lemma no_overlap_append:
  assumes inv: "no_overlap st" and d: "0 \<le> duration buf"
  shows "no_overlap
     (st\<lparr>sources := sources st @ [\<lparr>src_id = length (sources st), buffer = buf,
                                     startTime = nextStartTimeRef st, stopped = False\<rparr>],
         nextStartTimeRef := nextStartTimeRef st + duration buf,
         audioQueueRef := insert (length (sources st)) (audioQueueRef st)\<rparr>)"
proof -
  let ?new = "\<lparr>src_id = length (sources st), buffer = buf,
               startTime = nextStartTimeRef st, stopped = False\<rparr>"
  let ?st = "st\<lparr>sources := sources st @ [?new],
         nextStartTimeRef := nextStartTimeRef st + duration buf,
         audioQueueRef := insert (length (sources st)) (audioQueueRef st)\<rparr>"
  from inv have ids: "\<forall>s\<in>set (sources st). src_id s < length (sources st)"
    and ends: "\<forall>s\<in>set (queued st). endTime s \<le> nextStartTimeRef st"
    and sorted: "sorted_wrt (\<lambda>s s'. endTime s \<le> startTime s') (queued st)"
    by (simp_all add: no_overlap_def)
  have q: "queued ?st = queued st @ [?new]"
    by (rule queued_append [OF ids]) simp
  have "sorted_wrt (\<lambda>s s'. endTime s \<le> startTime s') (queued ?st)"
    using sorted ends by (simp add: q sorted_wrt_append)
  moreover have "\<forall>s\<in>set (queued ?st). endTime s \<le> nextStartTimeRef ?st"
    using ends d by (auto simp: q endTime_def)
  moreover have "\<forall>s\<in>set (sources ?st). src_id s < length (sources ?st)"
    using ids by auto
  ultimately have "no_overlap ?st" unfolding no_overlap_def by blast
  then show ?thesis by simp
qed

lemma scheduleChunk_no_overlap:
  assumes "good_decoder b" and "no_overlap st"
  shows "no_overlap (snd (scheduleChunk b now a st))"
proof (cases "decodeAudioData b a")
  case (Inl e)
  then show ?thesis using assms(2)
    by (simp add: scheduleChunk_def Let_def no_overlap_raise)
next
  case (Inr buf)
  with assms(1) have d: "0 \<le> duration buf" by (auto simp: good_decoder_def)
  let ?st1 = "st\<lparr>nextStartTimeRef := max (nextStartTimeRef st) now\<rparr>"
  have "no_overlap ?st1" using assms(2) by (simp add: no_overlap_raise)
  from no_overlap_append [OF this d] Inr show ?thesis
    by (simp add: scheduleChunk_def Let_def)
qed

lemma stopSources_id_bound:
  "\<forall>s\<in>set xs. src_id s < n \<Longrightarrow> \<forall>s\<in>set (stopSources q xs). src_id s < n"
  by (auto simp: stopSources_def)

lemma flushQueue_no_overlap: "no_overlap st \<Longrightarrow> no_overlap (flushQueue st)"
  using stopSources_id_bound [of "sources st" "length (sources st)" "audioQueueRef st"]
  by (simp add: no_overlap_def flushQueue_def queued_def)

lemma onended_no_overlap: "no_overlap st \<Longrightarrow> no_overlap (onended i st)"
proof -
  assume inv: "no_overlap st"
  have q: "queued (onended i st) = filter (\<lambda>s. src_id s \<noteq> i) (queued st)"
    by (auto simp: queued_def onended_def intro: filter_cong)
  show ?thesis using inv
    by (auto simp: no_overlap_def q sorted_wrt_filter) (simp add: onended_def)+
qed

lemma onmessage_no_overlap:
  assumes "good_decoder b" and "no_overlap st"
  shows "no_overlap (snd (onmessage b now msg st))"
proof (cases "base64Audio msg")
  case (Inl e)
  then show ?thesis using assms(2) by (simp add: onmessage_def)
next
  case (Inr audio)
  define r where "r = (case audio of
                    None \<Rightarrow> (None, st)
                  | Some a \<Rightarrow>
                      if a \<noteq> [] \<and> outputAudioContextRef st \<noteq> None
                      then scheduleChunk b now a st
                      else (None, st))"
  have inv1: "no_overlap (snd r)"
    using assms scheduleChunk_no_overlap [OF assms]
    by (simp add: r_def split: option.splits)
  have "snd (onmessage b now msg st) = snd r \<or> snd (onmessage b now msg st) = flushQueue (snd r)"
    using Inr by (simp add: onmessage_def r_def [symmetric] split: prod.splits option.splits)
  with inv1 flushQueue_no_overlap [OF inv1] show ?thesis by auto
qed

lemma live_run_no_overlap:
  "good_decoder b \<Longrightarrow> no_overlap st \<Longrightarrow> no_overlap (live_run b evs st)"
proof (induction evs arbitrary: st)
  case Nil
  then show ?case by simp
next
  case (Cons ev evs)
  have "no_overlap (live_step b ev st)"
    using Cons.prems by (cases ev) (simp_all add: onmessage_no_overlap onended_no_overlap)
  with Cons show ?case by simp
qed

lemma scheduleChunk_cursor:
  assumes "good_decoder b"
  shows "nextStartTimeRef st \<le> nextStartTimeRef (snd (scheduleChunk b now a st))"
proof (cases "decodeAudioData b a")
  case (Inl e)
  then show ?thesis by (simp add: scheduleChunk_def Let_def)
next
  case (Inr buf)
  with assms have "0 \<le> duration buf" by (auto simp: good_decoder_def)
  with Inr show ?thesis by (simp add: scheduleChunk_def Let_def max_def)
qed

lemma onmessage_cursor:
  assumes "good_decoder b" and "\<not> msg_interrupted msg"
  shows "nextStartTimeRef st \<le> nextStartTimeRef (snd (onmessage b now msg st))"
proof (cases "base64Audio msg")
  case (Inl e)
  then show ?thesis by (simp add: onmessage_def)
next
  case (Inr audio)
  define r where "r = (case audio of
                    None \<Rightarrow> (None, st)
                  | Some a \<Rightarrow>
                      if a \<noteq> [] \<and> outputAudioContextRef st \<noteq> None
                      then scheduleChunk b now a st
                      else (None, st))"
  have "nextStartTimeRef st \<le> nextStartTimeRef (snd r)"
    using scheduleChunk_cursor [OF assms(1), of st now] by (simp add: r_def split: option.splits)
  moreover have "snd (onmessage b now msg st) = snd r"
    using Inr assms(2)
    by (simp add: onmessage_def r_def [symmetric] split: prod.splits option.splits)
  ultimately show ?thesis by simp
qed

lemma live_run_cursor:
  "good_decoder b \<Longrightarrow> \<forall>ev\<in>set evs. \<not> interrupts ev \<Longrightarrow>
     nextStartTimeRef st \<le> nextStartTimeRef (live_run b evs st)"
proof (induction evs arbitrary: st)
  case Nil
  then show ?case by simp
next
  case (Cons ev evs)
  have "nextStartTimeRef st \<le> nextStartTimeRef (live_step b ev st)"
    using Cons.prems by (cases ev) (simp_all add: onmessage_cursor onended_def)
  moreover have "nextStartTimeRef (live_step b ev st) \<le> nextStartTimeRef (live_run b evs (live_step b ev st))"
    using Cons by simp
  ultimately show ?case by simp
qed

lemma onmessage_schedules:
  assumes "base64Audio msg = Inr (Some a)" and "a \<noteq> []" and "outputAudioContextRef st \<noteq> None"
    and "decodeAudioData b a = Inr buf" and "\<not> msg_interrupted msg"
  shows "onmessage b now msg st =
     (None, st\<lparr>sources := sources st @
                   [\<lparr>src_id = length (sources st), buffer = buf,
                     startTime = max (nextStartTimeRef st) now, stopped = False\<rparr>],
               nextStartTimeRef := max (nextStartTimeRef st) now + duration buf,
               audioQueueRef := insert (length (sources st)) (audioQueueRef st)\<rparr>)"
  using assms by (simp add: onmessage_def scheduleChunk_def Let_def)


text \<open>
  C9. With a decoder whose buffers have a duration of at least zero: a message whose
  first part carries audio that decodes starts a new source at the maximum of the
  cursor and the current time and moves the cursor to that time plus the duration of
  the buffer (an interruption in the same message then flushes the queue); over a run
  of events without an interruption the cursor never decreases; and over every run the
  queued sources do not overlap and end by the cursor.
\<close>

theorem playback_gapless:
  "good_decoder b \<Longrightarrow>
     (base64Audio msg = Inr (Some a) \<and> a \<noteq> [] \<and> outputAudioContextRef st \<noteq> None \<and>
      decodeAudioData b a = Inr buf \<and> \<not> msg_interrupted msg \<longrightarrow>
        onmessage b now msg st =
          (None, st\<lparr>sources := sources st @
                        [\<lparr>src_id = length (sources st), buffer = buf,
                          startTime = max (nextStartTimeRef st) now, stopped = False\<rparr>],
                    nextStartTimeRef := max (nextStartTimeRef st) now + duration buf,
                    audioQueueRef := insert (length (sources st)) (audioQueueRef st)\<rparr>)) \<and>
     ((\<forall>ev\<in>set evs. \<not> interrupts ev) \<longrightarrow>
        nextStartTimeRef st \<le> nextStartTimeRef (live_run b evs st)) \<and>
     (no_overlap st \<longrightarrow> no_overlap (live_run b evs st))"
  using onmessage_schedules [of msg a st b buf now] live_run_cursor [of b evs st]
    live_run_no_overlap [of b st evs]
  by blast

lemma mic_browser_decoder: "good_decoder mic_browser"
  by (simp add: good_decoder_def mic_browser_def silent_browser_def)

theorem playback_gapless_witness:
  "good_decoder mic_browser \<and>
   base64Audio audio_msg = Inr (Some ''UklGRg=='') \<and>
   outputAudioContextRef live_started \<noteq> None \<and>
   decodeAudioData mic_browser ''UklGRg=='' = Inr \<lparr>duration = 1/2\<rparr> \<and>
   \<not> msg_interrupted audio_msg \<and>
   \<not> interrupts (Message 1 audio_msg) \<and> \<not> interrupts (Message (5/4) audio_msg) \<and>
   no_overlap live_started \<and>
   onmessage mic_browser 1 audio_msg live_started =
     (None, live_started\<lparr>sources := [\<lparr>src_id = 0, buffer = \<lparr>duration = 1/2\<rparr>,
                                        startTime = 1, stopped = False\<rparr>],
                          nextStartTimeRef := 3/2, audioQueueRef := {0}\<rparr>) \<and>
   nextStartTimeRef live_started \<le>
     nextStartTimeRef (live_run mic_browser [Message 1 audio_msg, Message (5/4) audio_msg] live_started) \<and>
   no_overlap (live_run mic_browser [Message 1 audio_msg, Message (5/4) audio_msg] live_started)"
proof -
  have h: "base64Audio audio_msg = Inr (Some ''UklGRg=='') \<and> ''UklGRg=='' \<noteq> [] \<and>
      outputAudioContextRef live_started \<noteq> None \<and>
      decodeAudioData mic_browser ''UklGRg=='' = Inr \<lparr>duration = 1/2\<rparr> \<and>
      \<not> msg_interrupted audio_msg"
    by (simp add: base64Audio_def audio_msg_def msg_interrupted_def live_started_eq
        mic_browser_def silent_browser_def)
  have ni: "\<forall>ev\<in>set [Message 1 audio_msg, Message (5/4) audio_msg]. \<not> interrupts ev"
    by (simp add: msg_interrupted_def audio_msg_def)
  have no: "no_overlap live_started"
    by (simp add: no_overlap_def queued_def live_started_eq)
  have rhs: "live_started\<lparr>sources := sources live_started @
                        [\<lparr>src_id = length (sources live_started), buffer = \<lparr>duration = 1/2\<rparr>,
                          startTime = max (nextStartTimeRef live_started) 1, stopped = False\<rparr>],
                    nextStartTimeRef := max (nextStartTimeRef live_started) 1 + duration \<lparr>duration = 1/2\<rparr>,
                    audioQueueRef := insert (length (sources live_started)) (audioQueueRef live_started)\<rparr> =
      live_started\<lparr>sources := [\<lparr>src_id = 0, buffer = \<lparr>duration = 1/2\<rparr>,
                                        startTime = 1, stopped = False\<rparr>],
                          nextStartTimeRef := 3/2, audioQueueRef := {0}\<rparr>"
    by (simp add: live_started_eq)
  from playback_gapless [OF mic_browser_decoder, of audio_msg "''UklGRg==''" live_started
      "\<lparr>duration = 1/2\<rparr>" 1 "[Message 1 audio_msg, Message (5/4) audio_msg]"] h ni no
  have "onmessage mic_browser 1 audio_msg live_started =
      (None, live_started\<lparr>sources := sources live_started @
                        [\<lparr>src_id = length (sources live_started), buffer = \<lparr>duration = 1/2\<rparr>,
                          startTime = max (nextStartTimeRef live_started) 1, stopped = False\<rparr>],
                    nextStartTimeRef := max (nextStartTimeRef live_started) 1 + duration \<lparr>duration = 1/2\<rparr>,
                    audioQueueRef := insert (length (sources live_started)) (audioQueueRef live_started)\<rparr>) \<and>
    nextStartTimeRef live_started \<le>
      nextStartTimeRef (live_run mic_browser [Message 1 audio_msg, Message (5/4) audio_msg] live_started) \<and>
    no_overlap (live_run mic_browser [Message 1 audio_msg, Message (5/4) audio_msg] live_started)"
    by blast
  then have "onmessage mic_browser 1 audio_msg live_started =
      (None, live_started\<lparr>sources := [\<lparr>src_id = 0, buffer = \<lparr>duration = 1/2\<rparr>,
                                        startTime = 1, stopped = False\<rparr>],
                          nextStartTimeRef := 3/2, audioQueueRef := {0}\<rparr>) \<and>
    nextStartTimeRef live_started \<le>
      nextStartTimeRef (live_run mic_browser [Message 1 audio_msg, Message (5/4) audio_msg] live_started) \<and>
    no_overlap (live_run mic_browser [Message 1 audio_msg, Message (5/4) audio_msg] live_started)"
    unfolding rhs .
  moreover have "\<not> interrupts (Message 1 audio_msg)" "\<not> interrupts (Message (5/4) audio_msg)"
    using ni by simp_all
  ultimately show ?thesis using h no mic_browser_decoder by blast
qed

section \<open>Live session: interruption\<close>

lemma onmessage_flushes:
  "msg_interrupted msg \<Longrightarrow> onmessage b now msg st = (None, st') \<Longrightarrow>
     audioQueueRef st' = {} \<and> nextStartTimeRef st' = 0 \<and>
     (\<forall>s\<in>set (sources st'). src_id s \<in> audioQueueRef st \<longrightarrow> stopped s)"
  by (auto simp: onmessage_def flushQueue_def stopSources_def scheduleChunk_def Let_def
      split: sum.splits option.splits if_splits prod.splits)

lemma interruption_flushes_queue:
  "onmessage mic_browser 2 interrupt_msg live_playing =
     (None, live_started\<lparr>sources := [\<lparr>src_id = 0, buffer = \<lparr>duration = 1/2\<rparr>,
                                        startTime = 1, stopped = True\<rparr>],
                          nextStartTimeRef := 0, audioQueueRef := {}\<rparr>)"
  by (simp add: onmessage_def base64Audio_def interrupt_msg_def msg_interrupted_def
      flushQueue_def stopSources_def live_playing_eq live_started_eq)

text \<open>
  C3 at a message that carries the interruption together with a \<open>modelTurn\<close> that has
  no \<open>parts\<close>, while one source is queued: the handler throws at \<open>parts[0]\<close> and leaves
  the queue, the source and the cursor as they were.
\<close>

theorem interruption_lost_on_bare_turn:
  "msg_interrupted bare_turn_interrupt_msg \<and>
   onmessage mic_browser 2 bare_turn_interrupt_msg live_playing =
     (Some (TypeError ''parts is undefined''), live_playing) \<and>
   audioQueueRef live_playing = {0} \<and>
   nextStartTimeRef live_playing = 3/2 \<and>
   map stopped (sources live_playing) = [False]"
  by (simp add: onmessage_def base64Audio_def bare_turn_interrupt_msg_def msg_interrupted_def
      live_playing_eq live_started_eq)

section \<open>Live session: teardown\<close>




end
